theory Spec2Isabelle
  imports Main "HOL-Library.Sublist"
begin

section \<open>Python strings\<close>

text \<open>
  A Python \<open>str\<close> is a sequence of Unicode code points, so a string is a list of code
  points here and \<open>length\<close> is Python's \<open>len\<close>. The two marks of the scoreboard are
  single code points: the check mark U+2705 and the question mark ornament U+2753.
\<close>

type_synonym pystr = "nat list"

definition ascii :: "string \<Rightarrow> pystr" where
  "ascii s = map of_char s"

abbreviation (input) check_mark :: nat where "check_mark \<equiv> 9989"
abbreviation (input) question_mark :: nat where "question_mark \<equiv> 10067"
abbreviation (input) newline :: nat where "newline \<equiv> 10"
abbreviation (input) space :: nat where "space \<equiv> 32"
abbreviation (input) hash :: nat where "hash \<equiv> 35"
abbreviation (input) lparen :: nat where "lparen \<equiv> 40"

text \<open>\<open>sub in s\<close>\<close>

fun py_in :: "pystr \<Rightarrow> pystr \<Rightarrow> bool" where
  "py_in sub [] = (sub = [])"
| "py_in sub (c # cs) = (prefix sub (c # cs) \<or> py_in sub cs)"

text \<open>\<open>s.find(sub)\<close>: the lowest index where \<open>sub\<close> starts, or \<open>-1\<close>.\<close>

fun py_find :: "pystr \<Rightarrow> pystr \<Rightarrow> int" where
  "py_find [] sub = (if sub = [] then 0 else - 1)"
| "py_find (c # cs) sub =
     (if prefix sub (c # cs) then 0
      else (let r = py_find cs sub in if r < 0 then - 1 else r + 1))"

text \<open>Slices \<open>s[a:b]\<close>, \<open>s[a:]\<close> and \<open>s[:b]\<close>: a negative index counts from the end, and
  every index is clipped to the string.\<close>

definition clamp_index :: "nat \<Rightarrow> int \<Rightarrow> nat" where
  "clamp_index n i = (if i < 0 then nat (max 0 (int n + i)) else min n (nat i))"

definition slice :: "pystr \<Rightarrow> int \<Rightarrow> int \<Rightarrow> pystr" where
  "slice s a b =
     (let i = clamp_index (length s) a; j = clamp_index (length s) b
      in take (j - i) (drop i s))"

definition slice_from :: "pystr \<Rightarrow> int \<Rightarrow> pystr" where
  "slice_from s a = drop (clamp_index (length s) a) s"

definition slice_to :: "pystr \<Rightarrow> int \<Rightarrow> pystr" where
  "slice_to s b = take (clamp_index (length s) b) s"

text \<open>\<open>s.strip()\<close> removes the white space of \<open>str.isspace\<close> at both ends.\<close>

definition isspace :: "nat \<Rightarrow> bool" where
  "isspace c =
     ((9 \<le> c \<and> c \<le> 13) \<or> (28 \<le> c \<and> c \<le> 32) \<or> c = 133 \<or> c = 160 \<or> c = 5760
      \<or> (8192 \<le> c \<and> c \<le> 8202) \<or> c = 8232 \<or> c = 8233 \<or> c = 8239 \<or> c = 8287
      \<or> c = 12288)"

definition strip :: "pystr \<Rightarrow> pystr" where
  "strip s = rev (dropWhile isspace (rev (dropWhile isspace s)))"

text \<open>\<open>s.replace(old, new)\<close> replaces every occurrence of \<open>old\<close>, scanning from the left
  and continuing after each replaced occurrence. The first argument of \<open>replace_from\<close> counts
  the characters of a replaced occurrence still to be skipped. An empty \<open>old\<close> matches
  before every character and at the end.\<close>

fun replace_from :: "nat \<Rightarrow> pystr \<Rightarrow> pystr \<Rightarrow> pystr \<Rightarrow> pystr" where
  "replace_from k old new [] = []"
| "replace_from (Suc k) old new (c # cs) = replace_from k old new cs"
| "replace_from 0 old new (c # cs) =
     (if prefix old (c # cs) then new @ replace_from (length old - 1) old new cs
      else c # replace_from 0 old new cs)"

definition str_replace :: "pystr \<Rightarrow> pystr \<Rightarrow> pystr \<Rightarrow> pystr" where
  "str_replace s old new =
     (if old = [] then new @ concat (map (\<lambda>c. c # new) s) else replace_from 0 old new s)"

text \<open>\<open>s.split(sep)\<close> for a one-character separator; the result is never empty.\<close>

fun split_on :: "nat \<Rightarrow> pystr \<Rightarrow> pystr list" where
  "split_on sep [] = [[]]"
| "split_on sep (c # cs) =
     (if c = sep then [] # split_on sep cs
      else (case split_on sep cs of [] \<Rightarrow> [[c]] | l # ls \<Rightarrow> (c # l) # ls))"

text \<open>\<open>s.split(sep)[0]\<close>\<close>

definition first_field :: "nat \<Rightarrow> pystr \<Rightarrow> pystr" where
  "first_field sep s = (case split_on sep s of [] \<Rightarrow> [] | x # _ \<Rightarrow> x)"

text \<open>\<open>sep.join(xs)\<close>\<close>

fun join :: "pystr \<Rightarrow> pystr list \<Rightarrow> pystr" where
  "join sep [] = []"
| "join sep [x] = x"
| "join sep (x # y # ys) = x @ sep @ join sep (y # ys)"

text \<open>\<open>s.ljust(w)\<close> pads with spaces on the right, and never truncates.\<close>

definition ljust :: "pystr \<Rightarrow> nat \<Rightarrow> pystr" where
  "ljust s w = s @ replicate (w - length s) space"

text \<open>\<open>str(n)\<close> of an integer, as an f-string formats it.\<close>

fun digits :: "nat \<Rightarrow> pystr" where
  "digits n = (if n < 10 then [48 + n] else digits (n div 10) @ [48 + n mod 10])"

declare digits.simps [simp del]

definition str_int :: "int \<Rightarrow> pystr" where
  "str_int i = (if i < 0 then 45 # digits (nat (- i)) else digits (nat i))"


section \<open>Dates\<close>

text \<open>
  A \<open>datetime\<close> of the standard library: a calendar date and the time of day. The library
  only builds values with a month from 1 to 12 and a day of that month (\<open>valid_date\<close>).
  The functions below are the library's: the proleptic Gregorian day number, \<open>weekday()\<close>
  (Monday is 0), the week number \<open>isocalendar()[1]\<close>, and adding or subtracting a
  \<open>timedelta\<close> of whole days.
\<close>

record datetime =
  year :: int
  month :: nat
  day :: nat
  time_of_day :: nat

definition is_leap :: "int \<Rightarrow> bool" where
  "is_leap y = (y mod 4 = 0 \<and> (y mod 100 \<noteq> 0 \<or> y mod 400 = 0))"

definition days_in_month :: "int \<Rightarrow> nat \<Rightarrow> nat" where
  "days_in_month y m =
     (if m = 2 then (if is_leap y then 29 else 28)
      else if m = 4 \<or> m = 6 \<or> m = 9 \<or> m = 11 then 30 else 31)"

definition valid_date :: "datetime \<Rightarrow> bool" where
  "valid_date d = (1 \<le> month d \<and> month d \<le> 12 \<and> 1 \<le> day d \<and> day d \<le> days_in_month (year d) (month d))"

definition days_before_year :: "int \<Rightarrow> int" where
  "days_before_year y = (let p = y - 1 in p * 365 + p div 4 - p div 100 + p div 400)"

definition days_before_month :: "int \<Rightarrow> nat \<Rightarrow> nat" where
  "days_before_month y m = sum_list (map (days_in_month y) [1..<m])"

definition ymd2ord :: "int \<Rightarrow> nat \<Rightarrow> nat \<Rightarrow> int" where
  "ymd2ord y m d = days_before_year y + int (days_before_month y m) + int d"

definition toordinal :: "datetime \<Rightarrow> int" where
  "toordinal d = ymd2ord (year d) (month d) (day d)"

definition weekday :: "datetime \<Rightarrow> nat" where
  "weekday d = nat ((toordinal d + 6) mod 7)"

definition isoweek1monday :: "int \<Rightarrow> int" where
  "isoweek1monday y =
     (let firstday = ymd2ord y 1 1;
          firstweekday = (firstday + 6) mod 7;
          week1monday = firstday - firstweekday
      in if firstweekday > 3 then week1monday + 7 else week1monday)"

definition isocalendar_week :: "datetime \<Rightarrow> int" where
  "isocalendar_week d =
     (let today = toordinal d;
          week = (today - isoweek1monday (year d)) div 7
      in if week < 0 then (today - isoweek1monday (year d - 1)) div 7 + 1
         else if week \<ge> 52 \<and> today \<ge> isoweek1monday (year d + 1) then 1
         else week + 1)"

definition prev_day :: "datetime \<Rightarrow> datetime" where
  "prev_day d =
     (if 1 < day d then d\<lparr>day := day d - 1\<rparr>
      else if 1 < month d then d\<lparr>month := month d - 1, day := days_in_month (year d) (month d - 1)\<rparr>
      else d\<lparr>year := year d - 1, month := 12, day := 31\<rparr>)"

definition next_day :: "datetime \<Rightarrow> datetime" where
  "next_day d =
     (if day d < days_in_month (year d) (month d) then d\<lparr>day := day d + 1\<rparr>
      else if month d < 12 then d\<lparr>month := month d + 1, day := 1\<rparr>
      else d\<lparr>year := year d + 1, month := 1, day := 1\<rparr>)"

definition minus_days :: "datetime \<Rightarrow> nat \<Rightarrow> datetime" where
  "minus_days d n = (prev_day ^^ n) d"

definition plus_days :: "datetime \<Rightarrow> nat \<Rightarrow> datetime" where
  "plus_days d n = (next_day ^^ n) d"

text \<open>\<open>strftime('%B')\<close>\<close>

definition month_name :: "nat \<Rightarrow> pystr" where
  "month_name m =
     (if m = 1 then ascii ''January'' else if m = 2 then ascii ''February''
      else if m = 3 then ascii ''March'' else if m = 4 then ascii ''April''
      else if m = 5 then ascii ''May'' else if m = 6 then ascii ''June''
      else if m = 7 then ascii ''July'' else if m = 8 then ascii ''August''
      else if m = 9 then ascii ''September'' else if m = 10 then ascii ''October''
      else if m = 11 then ascii ''November'' else ascii ''December'')"


section \<open>The collaborators\<close>

datatype error = NotFound | Forbidden | AttributeError | JSONDecodeError | ValueError | IndexError

text \<open>A call either returns, or raises an exception; both leave a state behind.\<close>

datatype 'a outcome = Returned 'a | Raised error 'a

record team_member =
  discord_id :: int
  name :: pystr

text \<open>
  Modelled from the spec: the class \<open>StatusDB\<close> (module \<open>status_db\<close>) is the Persistence
  Gateway, with \<open>get_streak(member_id) -> int\<close> and a setter of the streak of one member,
  called \<open>update_streak\<close> in the code. It is a table of streaks keyed by member id.
\<close>

type_synonym status_db = "int \<Rightarrow> int"

definition get_streak :: "status_db \<Rightarrow> int \<Rightarrow> int" where
  "get_streak db i = db i"

definition db_update_streak :: "status_db \<Rightarrow> int \<Rightarrow> int \<Rightarrow> status_db" where
  "db_update_streak db i n = db(i := n)"

text \<open>
  Modelled from the spec: the chat platform's channel and post handle, with
  \<open>create(text) -> PostHandle{id}\<close> (\<open>channel.send\<close> in the code), \<open>fetch(id)\<close>
  (\<open>channel.fetch_message\<close>), \<open>edit(id, text)\<close> and \<open>delete(id)\<close>. A fetch, edit or delete
  of a post that is gone fails with \<open>NotFound\<close>, and every call fails with \<open>Forbidden\<close>
  once the permission is revoked. A message handle carries the id and the content it had
  when the platform returned it.
\<close>

record message =
  msg_id :: nat
  content :: pystr

record channel =
  permitted :: bool
  messages :: "nat \<rightharpoonup> pystr"
  next_id :: nat

definition send :: "channel \<Rightarrow> pystr \<Rightarrow> error + message \<times> channel" where
  "send ch text =
     (if \<not> permitted ch then Inl Forbidden
      else Inr (\<lparr>msg_id = next_id ch, content = text\<rparr>,
                ch\<lparr>messages := (messages ch)(next_id ch \<mapsto> text), next_id := Suc (next_id ch)\<rparr>))"

definition fetch_message :: "channel \<Rightarrow> nat \<Rightarrow> error + message" where
  "fetch_message ch i =
     (if \<not> permitted ch then Inl Forbidden
      else (case messages ch i of
              None \<Rightarrow> Inl NotFound
            | Some c \<Rightarrow> Inr \<lparr>msg_id = i, content = c\<rparr>))"

definition edit :: "channel \<Rightarrow> message \<Rightarrow> pystr \<Rightarrow> error + message \<times> channel" where
  "edit ch msg text =
     (if \<not> permitted ch then Inl Forbidden
      else (case messages ch (msg_id msg) of
              None \<Rightarrow> Inl NotFound
            | Some _ \<Rightarrow> Inr (msg\<lparr>content := text\<rparr>,
                             ch\<lparr>messages := (messages ch)(msg_id msg \<mapsto> text)\<rparr>)))"

definition delete :: "channel \<Rightarrow> message \<Rightarrow> error + channel" where
  "delete ch msg =
     (if \<not> permitted ch then Inl Forbidden
      else (case messages ch (msg_id msg) of
              None \<Rightarrow> Inl NotFound
            | Some _ \<Rightarrow> Inr (ch\<lparr>messages := (messages ch)(msg_id msg := None)\<rparr>)))"

text \<open>
  The file \<open>weekly_post_data.json\<close>: absent, or not a JSON object, or an object whose
  \<open>post_id\<close> and \<open>timestamp\<close> entries may be missing. A timestamp entry that is present is a
  string that \<open>datetime.fromisoformat\<close> either parses or rejects.
\<close>

datatype timestamp_entry = No_timestamp | Bad_timestamp | Timestamp datetime

datatype json_file = Not_an_object | Object "nat option" timestamp_entry

text \<open>The two readings of the clock that \<open>initialize_post\<close> takes, \<open>datetime.now()\<close> and
  \<open>datetime.utcnow()\<close>.\<close>

record clock =
  now :: datetime
  utcnow :: datetime


section \<open>WeeklyPostManager\<close>

record manager =
  channel :: channel
  team_members :: "team_member list"
  max_name_length :: nat
  editable_weekly_post :: "message option"
  editable_weekly_post_id :: "nat option"
  weekly_post_timestamp :: "datetime option"
  weekly_post_data_json :: "json_file option"

text \<open>\<open>max((len(m.name) for m in team_members), default=0)\<close>\<close>

definition max_len :: "team_member list \<Rightarrow> nat" where
  "max_len ms = fold max (map (\<lambda>m. length (name m)) ms) 0"

definition load_weekly_post_data :: "manager \<Rightarrow> manager outcome" where
  "load_weekly_post_data self =
     (case weekly_post_data_json self of
        None \<Rightarrow>
          Returned (self\<lparr>editable_weekly_post_id := None, weekly_post_timestamp := None,
                         weekly_post_data_json := Some (Object None No_timestamp)\<rparr>)
      | Some Not_an_object \<Rightarrow> Raised JSONDecodeError self
      | Some (Object pid ts) \<Rightarrow>
          (case ts of
             No_timestamp \<Rightarrow>
               Returned (self\<lparr>editable_weekly_post_id := pid, weekly_post_timestamp := None\<rparr>)
           | Bad_timestamp \<Rightarrow> Raised ValueError (self\<lparr>editable_weekly_post_id := pid\<rparr>)
           | Timestamp t \<Rightarrow>
               Returned (self\<lparr>editable_weekly_post_id := pid, weekly_post_timestamp := Some t\<rparr>)))"

definition init :: "channel \<Rightarrow> team_member list \<Rightarrow> json_file option \<Rightarrow> manager outcome" where
  "init ch ms file =
     load_weekly_post_data
       \<lparr>channel = ch, team_members = ms, max_name_length = max_len ms,
        editable_weekly_post = None, editable_weekly_post_id = None,
        weekly_post_timestamp = None, weekly_post_data_json = file\<rparr>"

definition save_weekly_post_data :: "manager \<Rightarrow> clock \<Rightarrow> manager outcome" where
  "save_weekly_post_data self clk =
     (case editable_weekly_post self of
        None \<Rightarrow> Raised AttributeError self
      | Some post \<Rightarrow>
          Returned (self\<lparr>weekly_post_data_json :=
                            Some (Object (Some (msg_id post)) (Timestamp (now clk)))\<rparr>))"

definition format_date :: "datetime \<Rightarrow> error + pystr" where
  "format_date dt =
     (let suffix = [ascii ''th'', ascii ''st'', ascii ''nd'', ascii ''rd''];
          suffix_index =
            (if (4 \<le> day dt \<and> day dt \<le> 20) \<or> (24 \<le> day dt \<and> day dt \<le> 30) then 0
             else day dt mod 10)
      in if suffix_index < length suffix
         then Inr (month_name (month dt) @ ascii '' '' @ str_int (int (day dt)) @ suffix ! suffix_index)
         else Inl IndexError)"

definition day_suffix :: "int \<Rightarrow> pystr" where
  "day_suffix streak = (if streak = 1 then ascii ''day'' else ascii ''days'')"

text \<open>The line of one member in a full render (lines 88, 253 and 291 of the source).\<close>

definition member_line_text :: "nat \<Rightarrow> pystr \<Rightarrow> pystr \<Rightarrow> int \<Rightarrow> pystr" where
  "member_line_text w nm marks streak =
     ascii ''# `'' @ ljust nm w @ ascii '' '' @ marks @ ascii '' (Streak: '' @ str_int streak
       @ ascii '' '' @ day_suffix streak @ ascii '')`''"

definition five_question_marks :: pystr where
  "five_question_marks = replicate 5 question_mark"

text \<open>A post id counts as present when it is truthy: not \<open>None\<close> and not 0.\<close>

definition truthy_id :: "nat option \<Rightarrow> bool" where
  "truthy_id i = (case i of None \<Rightarrow> False | Some n \<Rightarrow> n \<noteq> 0)"

definition initialize_post :: "manager \<Rightarrow> status_db \<Rightarrow> clock \<Rightarrow> manager outcome" where
  "initialize_post self db clk =
     (let current_week_number = isocalendar_week (now clk);
          saved_week_number = map_option isocalendar_week (weekly_post_timestamp self)
      in if truthy_id (editable_weekly_post_id self) \<and> Some current_week_number = saved_week_number
         then (case fetch_message (channel self) (the (editable_weekly_post_id self)) of
                 Inl e \<Rightarrow> Raised e self
               | Inr post \<Rightarrow> Returned (self\<lparr>editable_weekly_post := Some post\<rparr>))
         else
           (let utc_now = utcnow clk;
                today_weekday = weekday utc_now;
                last_monday = minus_days utc_now today_weekday;
                next_sunday = plus_days last_monday 6
            in case format_date last_monday of
                 Inl e \<Rightarrow> Raised e self
               | Inr start_date \<Rightarrow>
            (case format_date next_sunday of
                 Inl e \<Rightarrow> Raised e self
               | Inr end_date \<Rightarrow>
            (let member_list =
                   map (\<lambda>m. member_line_text (max_name_length self) (name m) five_question_marks
                              (get_streak db (discord_id m)))
                     (team_members self);
                 member_list_str = join [newline] member_list
             in case send (channel self) (ascii ''# Weekly Status Updates'') of
                  Inl e \<Rightarrow> Raised e self
                | Inr (_, ch1) \<Rightarrow>
             (case send ch1 (ascii ''## '' @ start_date @ ascii '' to '' @ end_date) of
                  Inl e \<Rightarrow> Raised e (self\<lparr>channel := ch1\<rparr>)
                | Inr (_, ch2) \<Rightarrow>
                    if member_list_str \<noteq> []
                    then (case send ch2 member_list_str of
                            Inl e \<Rightarrow> Raised e (self\<lparr>channel := ch2\<rparr>)
                          | Inr (post, ch3) \<Rightarrow>
                              save_weekly_post_data
                                (self\<lparr>channel := ch3, editable_weekly_post := Some post\<rparr>) clk)
                    else Returned (self\<lparr>channel := ch2\<rparr>))))))"

text \<open>
  Lines 101 to 129 of \<open>update_post\<close>: the new content of the post, or \<open>None\<close> where the
  method returns without editing.
\<close>

definition patched_content :: "pystr \<Rightarrow> pystr \<Rightarrow> nat \<Rightarrow> int \<Rightarrow> pystr option" where
  "patched_content cont nm w new_streak =
     (let lines = split_on newline cont
      in case find (py_in nm) lines of
           None \<Rightarrow> None
         | Some found \<Rightarrow>
             (let line_to_edit = strip (str_replace found (ascii ''#'') []);
                  name_end = py_find line_to_edit (ascii '' '');
                  marks_streak = strip (slice_from line_to_edit name_end);
                  first_question_mark = py_find marks_streak [question_mark]
              in if first_question_mark = - 1 then None
                 else
                   (let new_marks_streak =
                          slice_to marks_streak first_question_mark @ [check_mark]
                            @ slice_from marks_streak (first_question_mark + 1);
                        new_streak_str =
                          ascii ''(Streak: '' @ str_int new_streak @ ascii '' ''
                            @ day_suffix new_streak @ ascii '')'';
                        new_line =
                          ascii ''`'' @ ljust nm w @ ascii '' ''
                            @ strip (first_field lparen new_marks_streak) @ ascii '' ''
                            @ new_streak_str @ ascii ''`''
                    in Some (str_replace cont line_to_edit new_line))))"

definition update_post :: "manager \<Rightarrow> team_member \<Rightarrow> status_db \<Rightarrow> manager outcome" where
  "update_post self member db =
     (case editable_weekly_post self of
        None \<Rightarrow> Raised AttributeError self
      | Some post \<Rightarrow>
          (case patched_content (content post) (name member) (max_name_length self)
                  (get_streak db (discord_id member)) of
             None \<Rightarrow> Returned self
           | Some new_content \<Rightarrow>
               (case edit (channel self) post new_content of
                  Inl e \<Rightarrow> Raised e self
                | Inr (post', ch') \<Rightarrow>
                    Returned (self\<lparr>channel := ch', editable_weekly_post := Some post'\<rparr>))))"

text \<open>The five characters that \<open>has_all_checkmarks\<close> and \<open>has_minimum_checkmarks\<close> read,
  or \<open>None\<close> where the name is not found.\<close>

definition existing_line :: "pystr \<Rightarrow> pystr \<Rightarrow> nat \<Rightarrow> pystr option" where
  "existing_line cont nm w =
     (let name_index = py_find cont nm
      in if name_index = - 1 then None
         else (let start_index = name_index + int w + 1
               in Some (slice cont start_index (start_index + 5))))"

definition has_all_checkmarks :: "manager \<Rightarrow> team_member \<Rightarrow> error + bool" where
  "has_all_checkmarks self member =
     (case editable_weekly_post self of
        None \<Rightarrow> Inl AttributeError
      | Some post \<Rightarrow>
          (case existing_line (content post) (name member) (max_name_length self) of
             None \<Rightarrow> Inr False
           | Some l \<Rightarrow> Inr (list_all (\<lambda>c. c = check_mark) l)))"

definition has_minimum_checkmarks :: "manager \<Rightarrow> team_member \<Rightarrow> int \<Rightarrow> error + bool" where
  "has_minimum_checkmarks self member n =
     (case editable_weekly_post self of
        None \<Rightarrow> Inl AttributeError
      | Some post \<Rightarrow>
          (case existing_line (content post) (name member) (max_name_length self) of
             None \<Rightarrow> Inr False
           | Some l \<Rightarrow> Inr (int (count_list l check_mark) \<ge> n)))"

definition update_streak :: "manager \<Rightarrow> team_member \<Rightarrow> status_db \<Rightarrow> status_db" where
  "update_streak self member db =
     (let existing_streak = get_streak db (discord_id member);
          new_streak = existing_streak + 1
      in db_update_streak db (discord_id member) new_streak)"

text \<open>The loop of \<open>reset_streaks\<close> over the members still to visit.\<close>

fun reset_streaks_loop :: "manager \<Rightarrow> team_member list \<Rightarrow> status_db \<Rightarrow> status_db outcome" where
  "reset_streaks_loop self [] db = Returned db"
| "reset_streaks_loop self (member # rest) db =
     (case has_minimum_checkmarks self member 5 of
        Inl e \<Rightarrow> Raised e db
      | Inr enough \<Rightarrow>
          reset_streaks_loop self rest
            (if \<not> enough then db_update_streak db (discord_id member) 0 else db))"

definition reset_streaks :: "manager \<Rightarrow> status_db \<Rightarrow> status_db outcome" where
  "reset_streaks self db = reset_streaks_loop self (team_members self) db"

text \<open>Lines 268 to 284 of \<open>rebuild_post\<close>: the marks of one member, read back from the post.\<close>

definition existing_marks :: "pystr \<Rightarrow> pystr \<Rightarrow> pystr" where
  "existing_marks cont nm =
     (let lines = split_on newline cont
      in case find (py_in nm) lines of
           None \<Rightarrow> five_question_marks
         | Some member_line \<Rightarrow>
             if member_line = [] then five_question_marks
             else
               (let first_checkmark = py_find member_line [check_mark];
                    first_question_mark = py_find member_line [question_mark]
                in if first_checkmark \<noteq> - 1
                   then slice member_line first_checkmark (first_checkmark + 5)
                   else if first_question_mark \<noteq> - 1
                   then slice member_line first_question_mark (first_question_mark + 5)
                   else five_question_marks))"

text \<open>The new content that \<open>rebuild_post\<close> computes from the live post (lines 265 to 295).\<close>

definition rebuilt_content :: "nat \<Rightarrow> team_member list \<Rightarrow> status_db \<Rightarrow> pystr \<Rightarrow> pystr" where
  "rebuilt_content w members db cont =
     join [newline]
       (map (\<lambda>m. member_line_text w (name m) (existing_marks cont (name m))
                   (get_streak db (discord_id m)))
          members)"

definition rebuild_post :: "manager \<Rightarrow> status_db \<Rightarrow> clock \<Rightarrow> manager outcome" where
  "rebuild_post self db clk =
     (if team_members self \<noteq> [] \<and> editable_weekly_post self = None
      then
        (case team_members self of
           [] \<Rightarrow> Raised IndexError self
         | first_member # _ \<Rightarrow>
             (let streak = get_streak db (discord_id first_member);
                  initial_content =
                    member_line_text (max_name_length self) (name first_member)
                      five_question_marks streak
              in case send (channel self) initial_content of
                   Inl e \<Rightarrow> Raised e self
                 | Inr (post, ch') \<Rightarrow>
                     save_weekly_post_data
                       (self\<lparr>channel := ch', editable_weekly_post := Some post\<rparr>) clk))
      else if team_members self = []
      then
        (case editable_weekly_post self of
           None \<Rightarrow> Returned (self\<lparr>editable_weekly_post := None\<rparr>)
         | Some post \<Rightarrow>
             (case delete (channel self) post of
                Inl e \<Rightarrow> Raised e self
              | Inr ch' \<Rightarrow> Returned (self\<lparr>channel := ch', editable_weekly_post := None\<rparr>)))
      else
        (case editable_weekly_post self of
           None \<Rightarrow> Raised AttributeError self
         | Some post \<Rightarrow>
             (case edit (channel self) post
                     (rebuilt_content (max_name_length self) (team_members self) db (content post)) of
                Inl e \<Rightarrow> Raised e self
              | Inr (post', ch') \<Rightarrow>
                  Returned (self\<lparr>channel := ch', editable_weekly_post := Some post'\<rparr>))))"

definition add_member_to_post ::
  "manager \<Rightarrow> team_member \<Rightarrow> status_db \<Rightarrow> clock \<Rightarrow> manager outcome" where
  "add_member_to_post self member db clk =
     (let members = team_members self @ [member]
      in rebuild_post (self\<lparr>team_members := members, max_name_length := max_len members\<rparr>) db clk)"

definition remove_member_from_post ::
  "manager \<Rightarrow> team_member \<Rightarrow> status_db \<Rightarrow> clock \<Rightarrow> manager outcome" where
  "remove_member_from_post self member db clk =
     (let members = filter (\<lambda>m. discord_id m \<noteq> discord_id member) (team_members self)
      in rebuild_post
           (self\<lparr>team_members := members,
                 max_name_length := (if members \<noteq> [] then max_len members else 0)\<rparr>) db clk)"


section \<open>The alignment of a post\<close>

text \<open>
  Modelled from the spec: "Each line: name left-padded/justified to the width of the
  longest name in the roster (so all mark-sequences start in the same column)". A post is
  aligned for a roster when its lines are those of the roster members, one line for each
  member and in roster order, and the line of a member starts with the three characters
  that open a line, the name padded with spaces to the length \<open>w\<close> of the longest name of
  the roster, and one space, so that a mark, the first of the mark sequence, stands at
  column \<open>w + 4\<close> of every line.
\<close>

definition aligned :: "team_member list \<Rightarrow> pystr \<Rightarrow> bool" where
  "aligned ms c =
     (let w = Max (set (0 # map (\<lambda>m. length (name m)) ms))
      in list_all2
           (\<lambda>m l. take (w + 4) l
                     = ascii ''# `'' @ name m @ replicate (w - length (name m)) space @ [space]
                   \<and> (case drop (w + 4) l of
                         [] \<Rightarrow> False
                       | x # _ \<Rightarrow> x = check_mark \<or> x = question_mark))
           ms (split_on newline c))"


section \<open>Example inputs\<close>

definition ex_date :: datetime where
  "ex_date = \<lparr>year = 2026, month = 11, day = 4, time_of_day = 0\<rparr>"

definition ex_clock :: clock where
  "ex_clock = \<lparr>now = ex_date, utcnow = ex_date\<rparr>"

definition ex_alice :: team_member where
  "ex_alice = \<lparr>discord_id = 1, name = ascii ''Alice''\<rparr>"

definition ex_bob :: team_member where
  "ex_bob = \<lparr>discord_id = 2, name = ascii ''Bob''\<rparr>"

definition ex_channel :: channel where
  "ex_channel = \<lparr>permitted = True, messages = Map.empty, next_id = 1\<rparr>"

definition ex_db :: status_db where
  "ex_db = (\<lambda>_. 0)"

text \<open>A manager for Alice and Bob before its first load: no file, no post.\<close>

definition ex_fresh :: manager where
  "ex_fresh =
     \<lparr>channel = ex_channel, team_members = [ex_alice, ex_bob], max_name_length = 5,
      editable_weekly_post = None, editable_weekly_post_id = None,
      weekly_post_timestamp = None, weekly_post_data_json = None\<rparr>"

text \<open>The same manager after a restart in the week of post 7, which the channel no longer has.\<close>

definition ex_gone :: manager where
  "ex_gone =
     ex_fresh\<lparr>editable_weekly_post_id := Some 7, weekly_post_timestamp := Some ex_date,
              weekly_post_data_json := Some (Object (Some 7) (Timestamp ex_date))\<rparr>"

text \<open>Bobby and Bob, whose name is a part of Bobby's, in a post of the current week.\<close>

definition ex_bobby :: team_member where
  "ex_bobby = \<lparr>discord_id = 3, name = ascii ''Bobby''\<rparr>"

definition ex_collision_post :: pystr where
  "ex_collision_post =
     join [newline]
       [member_line_text 5 (ascii ''Bobby'') five_question_marks 0,
        member_line_text 5 (ascii ''Bob'') five_question_marks 0]"

definition ex_collision :: manager where
  "ex_collision =
     \<lparr>channel = \<lparr>permitted = True, messages = [1 \<mapsto> ex_collision_post], next_id = 2\<rparr>,
      team_members = [ex_bobby, ex_bob], max_name_length = 5,
      editable_weekly_post = Some \<lparr>msg_id = 1, content = ex_collision_post\<rparr>,
      editable_weekly_post_id = None, weekly_post_timestamp = None,
      weekly_post_data_json = Some (Object (Some 1) (Timestamp ex_date))\<rparr>"

definition ex_collision_after :: pystr where
  "ex_collision_after =
     join [newline]
       [member_line_text 5 (ascii ''Bob'') (check_mark # replicate 4 question_mark) 1,
        member_line_text 5 (ascii ''Bob'') five_question_marks 0]"

definition ex_al :: team_member where
  "ex_al = \<lparr>discord_id = 4, name = ascii ''Al (x)''\<rparr>"

text \<open>The post that the manager creates when \<open>Al (x)\<close> joins an empty roster, and the
  manager that holds it.\<close>

definition ex_paren_post :: pystr where
  "ex_paren_post = ascii ''# `Al (x) '' @ replicate 5 question_mark @ ascii '' (Streak: 0 days)`''"

definition ex_paren :: manager where
  "ex_paren =
     \<lparr>channel = \<lparr>permitted = True, messages = [1 \<mapsto> ex_paren_post], next_id = 2\<rparr>,
      team_members = [ex_al], max_name_length = 6,
      editable_weekly_post = Some \<lparr>msg_id = 1, content = ex_paren_post\<rparr>,
      editable_weekly_post_id = None, weekly_post_timestamp = None,
      weekly_post_data_json = Some (Object (Some 1) (Timestamp ex_date))\<rparr>"

definition ex_paren_after :: pystr where
  "ex_paren_after = ascii ''# `Al (x)  (Streak: 1 day)`''"

definition ex_paren_checked :: manager where
  "ex_paren_checked =
     ex_paren\<lparr>channel := \<lparr>permitted = True, messages = [1 \<mapsto> ex_paren_after], next_id = 2\<rparr>,
              editable_weekly_post := Some \<lparr>msg_id = 1, content = ex_paren_after\<rparr>\<rparr>"

definition ex_alice_line :: pystr where
  "ex_alice_line = member_line_text 5 (ascii ''Alice'') five_question_marks 0"

definition ex_bob_line :: pystr where
  "ex_bob_line = member_line_text 5 (ascii ''Bob'') five_question_marks 0"



text \<open>The manager after a restart in the week of post 7, which the channel still has.\<close>

definition ex_live_post :: pystr where
  "ex_live_post = join [newline] [ex_alice_line, ex_bob_line]"

definition ex_live :: manager where
  "ex_live =
     \<lparr>channel = \<lparr>permitted = True, messages = [7 \<mapsto> ex_live_post], next_id = 8\<rparr>,
      team_members = [ex_alice, ex_bob], max_name_length = 5,
      editable_weekly_post = None, editable_weekly_post_id = Some 7,
      weekly_post_timestamp = Some ex_date,
      weekly_post_data_json = Some (Object (Some 7) (Timestamp ex_date))\<rparr>"

text \<open>Managers with an empty roster, without and with a live post.\<close>

definition ex_empty :: manager where
  "ex_empty = ex_fresh\<lparr>team_members := [], max_name_length := 0\<rparr>"


definition ex_loaded_empty :: manager where
  "ex_loaded_empty = ex_empty\<lparr>weekly_post_data_json := Some (Object None No_timestamp)\<rparr>"

definition ex_emptied :: manager where
  "ex_emptied =
     ex_live\<lparr>team_members := [], max_name_length := 0,
             editable_weekly_post := Some \<lparr>msg_id = 7, content = ex_live_post\<rparr>\<rparr>"


text \<open>Posts of Bobby and Bob after check-ins of Bob: the line of Bob with its first
  \<open>k\<close> slots done, the post after \<open>k\<close> check-ins, and the post after the rebuild that
  follows the fifth one, before and after a sixth check-in.\<close>

definition ex_bobby_line :: pystr where
  "ex_bobby_line = ascii ''# `Bobby '' @ replicate 5 question_mark @ ascii '' (Streak: 0 days)`''"

definition ex_bob_line_with :: "nat \<Rightarrow> pystr" where
  "ex_bob_line_with k =
     ascii ''# `Bob   '' @ replicate k check_mark @ replicate (5 - k) question_mark
       @ ascii '' (Streak: 0 days)`''"

definition ex_bob_checkins :: "nat \<Rightarrow> pystr" where
  "ex_bob_checkins k = join [newline] [ex_bob_line_with k, ex_bob_line_with 0]"

definition ex_done_under_pending :: pystr where
  "ex_done_under_pending = join [newline] [ex_bobby_line, ex_bob_line_with 5]"

definition ex_done_rewritten :: pystr where
  "ex_done_rewritten = join [newline] [ex_bob_line_with 1, ex_bob_line_with 5]"

definition ex_collision_with :: "pystr \<Rightarrow> manager" where
  "ex_collision_with c =
     ex_collision\<lparr>channel := \<lparr>permitted = True, messages = [1 \<mapsto> c], next_id = 2\<rparr>,
                  editable_weekly_post := Some \<lparr>msg_id = 1, content = c\<rparr>\<rparr>"


text \<open>The manager after a restart one year after post 7, which the channel still has: the
  file holds a timestamp of 5 November 2025, 52 weeks before the date of the clock.\<close>

definition ex_last_year :: datetime where
  "ex_last_year = \<lparr>year = 2025, month = 11, day = 5, time_of_day = 0\<rparr>"

definition ex_stale :: manager where
  "ex_stale =
     ex_live\<lparr>weekly_post_timestamp := Some ex_last_year,
             weekly_post_data_json := Some (Object (Some 7) (Timestamp ex_last_year))\<rparr>"


text \<open>A week in which Bobby checks in and Bob does not: the stored streaks, with 2 for
  Bob, the line of Bobby with its first \<open>k\<close> slots done, the line of Bob, and the post
  after \<open>k\<close> check-ins of Bobby.\<close>

definition ex_week_db :: status_db where
  "ex_week_db = ex_db(2 := 2)"

definition ex_bobby_line_with :: "nat \<Rightarrow> pystr" where
  "ex_bobby_line_with k =
     ascii ''# `Bobby '' @ replicate k check_mark @ replicate (5 - k) question_mark
       @ ascii '' (Streak: 0 days)`''"

definition ex_bob_idle_line :: pystr where
  "ex_bob_idle_line = ascii ''# `Bob   '' @ replicate 5 question_mark @ ascii '' (Streak: 2 days)`''"

definition ex_bobby_checkins :: "nat \<Rightarrow> pystr" where
  "ex_bobby_checkins k = join [newline] [ex_bobby_line_with k, ex_bob_idle_line]"


text \<open>A week in progress: Alice has two slots done and a stored streak of 2, Bob none.\<close>

definition ex_marked_db :: status_db where
  "ex_marked_db = ex_db(1 := 2)"

definition ex_marked_post :: pystr where
  "ex_marked_post =
     ascii ''# `Alice '' @ replicate 2 check_mark @ replicate 3 question_mark
       @ ascii '' (Streak: 2 days)`'' @ [newline]
       @ ascii ''# `Bob   '' @ replicate 5 question_mark @ ascii '' (Streak: 0 days)`''"

definition ex_marked :: manager where
  "ex_marked =
     \<lparr>channel = \<lparr>permitted = True, messages = [3 \<mapsto> ex_marked_post], next_id = 4\<rparr>,
      team_members = [ex_alice, ex_bob], max_name_length = 5,
      editable_weekly_post = Some \<lparr>msg_id = 3, content = ex_marked_post\<rparr>,
      editable_weekly_post_id = None, weekly_post_timestamp = None,
      weekly_post_data_json = Some (Object (Some 3) (Timestamp ex_date))\<rparr>"

text \<open>Charlotte, whose name is longer than the others; a member whose name holds a line
  break, and the post and the manager after that member is added.\<close>

definition ex_charlotte :: team_member where
  "ex_charlotte = \<lparr>discord_id = 5, name = ascii ''Charlotte''\<rparr>"

definition ex_ann_lee :: team_member where
  "ex_ann_lee = \<lparr>discord_id = 6, name = ascii ''Ann'' @ [newline] @ ascii ''Lee''\<rparr>"

definition ex_misaligned_post :: pystr where
  "ex_misaligned_post =
     ascii ''# `Alice   '' @ replicate 2 check_mark @ replicate 3 question_mark
       @ ascii '' (Streak: 2 days)`'' @ [newline]
       @ ascii ''# `Bob     '' @ replicate 5 question_mark @ ascii '' (Streak: 0 days)`''
       @ [newline]
       @ ascii ''# `Ann'' @ [newline] @ ascii ''Lee '' @ replicate 5 question_mark
       @ ascii '' (Streak: 0 days)`''"

definition ex_misaligned :: manager where
  "ex_misaligned =
     ex_marked\<lparr>channel := \<lparr>permitted = True, messages = [3 \<mapsto> ex_misaligned_post], next_id = 4\<rparr>,
               team_members := [ex_alice, ex_bob, ex_ann_lee], max_name_length := 7,
               editable_weekly_post := Some \<lparr>msg_id = 3, content = ex_misaligned_post\<rparr>\<rparr>"


section \<open>Evaluating strings\<close>

lemma replicate_numeral: "replicate (numeral k) x = x # replicate (pred_numeral k) x"
  by (simp add: numeral_eq_Suc)

lemma str_int_0: "str_int 0 = [48]" by (simp add: str_int_def digits.simps)
lemma str_int_1: "str_int 1 = [49]" by (simp add: str_int_def digits.simps)
lemma str_int_2: "str_int 2 = [50]" by (simp add: str_int_def digits.simps)

lemmas string_eval =
  replicate_numeral member_line_text_def ascii_def ljust_def five_question_marks_def
  str_int_0 str_int_1 str_int_2 day_suffix_def strip_def isspace_def str_replace_def
  slice_def slice_from_def slice_to_def clamp_index_def first_field_def


section \<open>Dates stay valid\<close>

lemma days_in_month_le: "days_in_month y m \<le> 31"
  by (simp add: days_in_month_def)

lemma days_in_month_ge: "1 \<le> days_in_month y m"
  by (simp add: days_in_month_def)

lemma valid_prev_day: "valid_date d \<Longrightarrow> valid_date (prev_day d)"
  using days_in_month_ge [of "year d" "month d - 1"]
  by (auto simp: valid_date_def prev_day_def days_in_month_def)

lemma valid_next_day: "valid_date d \<Longrightarrow> valid_date (next_day d)"
  by (auto simp: valid_date_def next_day_def days_in_month_def)

lemma valid_minus_days: "valid_date d \<Longrightarrow> valid_date (minus_days d n)"
  unfolding minus_days_def by (induction n) (simp_all add: valid_prev_day)

lemma valid_plus_days: "valid_date d \<Longrightarrow> valid_date (plus_days d n)"
  unfolding plus_days_def by (induction n) (simp_all add: valid_next_day)

lemma format_date_returns:
  assumes "valid_date d"
  shows "\<exists>s. format_date d = Inr s"
proof -
  from assms days_in_month_le [of "year d" "month d"] have "1 \<le> day d" "day d \<le> 31"
    by (auto simp: valid_date_def)
  then have "(4 \<le> day d \<and> day d \<le> 20) \<or> (24 \<le> day d \<and> day d \<le> 30) \<or> day d mod 10 < 4"
    by presburger
  then show ?thesis
    by (auto simp: format_date_def Let_def)
qed

lemma join_nonempty: "x \<noteq> [] \<Longrightarrow> join sep (x # xs) \<noteq> []"
  by (cases xs) simp_all

lemma member_line_text_nonempty: "member_line_text w nm marks streak \<noteq> []"
  by (simp add: member_line_text_def ascii_def)



section \<open>Loading the persisted state\<close>

text \<open>
  Claim C9. When the file \<open>weekly_post_data.json\<close> does not exist, \<open>load_weekly_post_data\<close>
  returns without raising, with the post id and the timestamp both \<open>None\<close>; it leaves an
  empty JSON object behind, so a second load returns too, with the same state.
\<close>

theorem load_tolerates_absence:
  assumes "weekly_post_data_json self = None"
  shows "\<exists>self'. load_weekly_post_data self = Returned self'
           \<and> editable_weekly_post_id self' = None \<and> weekly_post_timestamp self' = None
           \<and> load_weekly_post_data self' = Returned self'"
  using assms by (simp add: load_weekly_post_data_def)

theorem load_tolerates_absence_witness:
  "weekly_post_data_json ex_fresh = None \<and>
   (\<exists>self'. load_weekly_post_data ex_fresh = Returned self'
           \<and> editable_weekly_post_id self' = None \<and> weekly_post_timestamp self' = None
           \<and> load_weekly_post_data self' = Returned self')"
proof -
  have h: "weekly_post_data_json ex_fresh = None" by (simp add: ex_fresh_def)
  from load_tolerates_absence [OF h] h show ?thesis by simp
qed


section \<open>Fetching the post of the current week\<close>

text \<open>
  Claim C2, as stated, fails: \<open>initialize_post\<close> has no handler around \<open>fetch_message\<close>. With
  post 7 persisted for the current week and gone from the channel, the call raises
  \<open>NotFound\<close> and creates nothing.
\<close>

theorem fetch_failure_counterexample:
  "initialize_post ex_gone ex_db ex_clock = Raised NotFound ex_gone"
  by (simp add: initialize_post_def ex_gone_def ex_fresh_def ex_clock_def truthy_id_def
        fetch_message_def ex_channel_def)

text \<open>
  Claim C2, amended. When a post id is persisted for the current week number and fetching
  that post fails, \<open>initialize_post\<close> raises the platform's error to its caller and leaves
  the manager, the channel and the file as they were: no post is created.
\<close>

theorem fetch_failure_propagates:
  assumes "editable_weekly_post_id self = Some i" and "i \<noteq> 0"
    and "weekly_post_timestamp self = Some t"
    and "isocalendar_week t = isocalendar_week (now clk)"
    and "fetch_message (channel self) i = Inl e"
  shows "initialize_post self db clk = Raised e self"
  using assms by (simp add: initialize_post_def truthy_id_def)

theorem fetch_failure_propagates_witness:
  "editable_weekly_post_id ex_gone = Some 7 \<and> (7::nat) \<noteq> 0
   \<and> weekly_post_timestamp ex_gone = Some ex_date
   \<and> isocalendar_week ex_date = isocalendar_week (now ex_clock)
   \<and> fetch_message (channel ex_gone) 7 = Inl NotFound
   \<and> initialize_post ex_gone ex_db ex_clock = Raised NotFound ex_gone"
proof -
  have 1: "editable_weekly_post_id ex_gone = Some 7" by (simp add: ex_gone_def)
  have 2: "(7::nat) \<noteq> 0" by simp
  have 3: "weekly_post_timestamp ex_gone = Some ex_date" by (simp add: ex_gone_def)
  have 4: "isocalendar_week ex_date = isocalendar_week (now ex_clock)"
    by (simp add: ex_clock_def)
  have 5: "fetch_message (channel ex_gone) 7 = Inl NotFound"
    by (simp add: ex_gone_def ex_fresh_def ex_channel_def fetch_message_def)
  from fetch_failure_propagates [OF 1 2 3 4 5] 1 2 3 4 5 show ?thesis by simp
qed


section \<open>Patching one line\<close>

lemma collision_patch:
  "patched_content ex_collision_post (ascii ''Bob'') 5 1 = Some ex_collision_after"
  by (simp add: patched_content_def ex_collision_post_def ex_collision_after_def string_eval)

text \<open>
  Claim C1 on the code. \<open>update_post\<close> takes the first line that contains the name as a
  substring. With Bobby's line above Bob's, a check-in of Bob rewrites Bobby's line, which
  then carries Bob's name, mark and streak, and leaves Bob's own line as it was.
\<close>

theorem update_post_edits_other_line:
  "update_post ex_collision ex_bob (ex_db(2 := 1)) =
     Returned (ex_collision
       \<lparr>channel := \<lparr>permitted = True, messages = [1 \<mapsto> ex_collision_after], next_id = 2\<rparr>,
        editable_weekly_post := Some \<lparr>msg_id = 1, content = ex_collision_after\<rparr>\<rparr>)"
  by (simp add: update_post_def ex_collision_def ex_bob_def ex_db_def get_streak_def
        collision_patch [unfolded ascii_def, simplified] ascii_def edit_def)

lemma paren_created:
  "init ex_channel [] None = Returned ex_loaded_empty
   \<and> add_member_to_post ex_loaded_empty ex_al ex_db ex_clock = Returned ex_paren"
  by (simp add: init_def load_weekly_post_data_def ex_loaded_empty_def
        add_member_to_post_def rebuild_post_def ex_empty_def ex_fresh_def ex_al_def
        ex_paren_def ex_paren_post_def ex_channel_def ex_clock_def ex_db_def get_streak_def
        max_len_def send_def save_weekly_post_data_def Let_def string_eval)

lemma paren_patch:
  "patched_content ex_paren_post (ascii ''Al (x)'') 6 1 = Some ex_paren_after"
  by (simp add: patched_content_def ex_paren_post_def ex_paren_after_def string_eval)

lemma paren_patch_again:
  "patched_content ex_paren_after (ascii ''Al (x)'') 6 2 = None"
  by (simp add: patched_content_def ex_paren_after_def string_eval)

text \<open>
  Claim C5 on the code. \<open>update_post\<close> takes the name to end at the first space of the
  line and the marks to end at the first parenthesis after it. When \<open>Al (x)\<close> joins an
  empty roster, the manager creates a post with five question marks for that member. The
  first check-in of the member does not turn the first question mark into a check mark:
  it rewrites the line without any mark. The second check-in then changes nothing, so the
  member never has a slot done.
\<close>

theorem update_post_drops_marks:
  "init ex_channel [] None = Returned ex_loaded_empty
   \<and> add_member_to_post ex_loaded_empty ex_al ex_db ex_clock = Returned ex_paren
   \<and> map_option content (editable_weekly_post ex_paren)
       = Some (ascii ''# `Al (x) '' @ replicate 5 question_mark @ ascii '' (Streak: 0 days)`'')
   \<and> update_post ex_paren ex_al (ex_db(4 := 1)) = Returned ex_paren_checked
   \<and> map_option content (editable_weekly_post ex_paren_checked)
       = Some (ascii ''# `Al (x)  (Streak: 1 day)`'')
   \<and> count_list (ascii ''# `Al (x)  (Streak: 1 day)`'') check_mark = 0
   \<and> count_list (ascii ''# `Al (x)  (Streak: 1 day)`'') question_mark = 0
   \<and> update_post ex_paren_checked ex_al (ex_db(4 := 2)) = Returned ex_paren_checked"
proof -
  have "map_option content (editable_weekly_post ex_paren)
       = Some (ascii ''# `Al (x) '' @ replicate 5 question_mark @ ascii '' (Streak: 0 days)`'')"
    by (simp add: ex_paren_def ex_paren_post_def)
  moreover have "map_option content (editable_weekly_post ex_paren_checked)
       = Some (ascii ''# `Al (x)  (Streak: 1 day)`'')"
    by (simp add: ex_paren_checked_def ex_paren_after_def)
  moreover have "count_list (ascii ''# `Al (x)  (Streak: 1 day)`'') check_mark = 0"
    "count_list (ascii ''# `Al (x)  (Streak: 1 day)`'') question_mark = 0"
    by (simp_all add: ascii_def)
  moreover have "update_post ex_paren ex_al (ex_db(4 := 1)) = Returned ex_paren_checked"
    by (simp add: update_post_def ex_paren_def ex_paren_checked_def ex_al_def ex_db_def
        get_streak_def paren_patch [unfolded ascii_def, simplified] ascii_def edit_def)
  moreover have "update_post ex_paren_checked ex_al (ex_db(4 := 2)) = Returned ex_paren_checked"
    by (simp add: update_post_def ex_paren_def ex_paren_checked_def ex_al_def ex_db_def
        get_streak_def paren_patch_again [unfolded ascii_def, simplified] ascii_def)
  ultimately show ?thesis
    using paren_created by simp
qed


section \<open>Rebuilding the post\<close>






section \<open>Initialising the post\<close>

lemma upt_11: "[Suc 0..<11] = [1,2,3,4,5,6,7,8,9,10::nat]"
  by code_simp

lemma toordinal_ex_date: "toordinal ex_date = 739924"
  by (simp add: toordinal_def ymd2ord_def days_before_year_def days_before_month_def
        days_in_month_def is_leap_def ex_date_def upt_11)

lemma toordinal_ex_last_year: "toordinal ex_last_year = 739560"
  by (simp add: toordinal_def ymd2ord_def days_before_year_def days_before_month_def
        days_in_month_def is_leap_def ex_last_year_def upt_11)

lemma year_ex_date: "year ex_date = 2026"
  by (simp add: ex_date_def)

lemma year_ex_last_year: "year ex_last_year = 2025"
  by (simp add: ex_last_year_def)

lemma week_ex_date: "isocalendar_week ex_date = 45"
  by (simp add: isocalendar_week_def toordinal_ex_date isoweek1monday_def ymd2ord_def
        days_before_year_def days_before_month_def year_ex_date Let_def)

lemma week_ex_last_year: "isocalendar_week ex_last_year = 45"
  by (simp add: isocalendar_week_def toordinal_ex_last_year isoweek1monday_def ymd2ord_def
        days_before_year_def days_before_month_def year_ex_last_year Let_def)

text \<open>
  Claim C8 on the code. \<open>initialize_post\<close> compares the week numbers alone, the second
  component of \<open>isocalendar()\<close>, and not the years. A post persisted on 5 November 2025 is
  52 weeks old on 4 November 2026, and both days lie in a week 45: after a restart on
  the later day, \<open>initialize_post\<close> fetches the post of the year before as the post of the
  current week and creates nothing.
\<close>

theorem initialize_post_fetches_last_year:
  "init (channel ex_live) [ex_alice, ex_bob] (Some (Object (Some 7) (Timestamp ex_last_year)))
     = Returned ex_stale
   \<and> weekly_post_timestamp ex_stale
       = Some \<lparr>year = 2025, month = 11, day = 5, time_of_day = 0\<rparr>
   \<and> now ex_clock = \<lparr>year = 2026, month = 11, day = 4, time_of_day = 0\<rparr>
   \<and> toordinal (now ex_clock) - toordinal ex_last_year = 364
   \<and> isocalendar_week ex_last_year = 45 \<and> isocalendar_week (now ex_clock) = 45
   \<and> initialize_post ex_stale ex_db ex_clock
       = Returned (ex_stale\<lparr>editable_weekly_post := Some \<lparr>msg_id = 7, content = ex_live_post\<rparr>\<rparr>)"
proof -
  have "init (channel ex_live) [ex_alice, ex_bob] (Some (Object (Some 7) (Timestamp ex_last_year)))
     = Returned ex_stale"
    by (simp add: init_def load_weekly_post_data_def ex_stale_def ex_live_def max_len_def
          ex_alice_def ex_bob_def ascii_def)
  moreover have "weekly_post_timestamp ex_stale
       = Some \<lparr>year = 2025, month = 11, day = 5, time_of_day = 0\<rparr>"
    by (simp add: ex_stale_def ex_last_year_def)
  moreover have "now ex_clock = \<lparr>year = 2026, month = 11, day = 4, time_of_day = 0\<rparr>"
    by (simp add: ex_clock_def ex_date_def)
  moreover have "toordinal (now ex_clock) - toordinal ex_last_year = 364"
    by (simp add: ex_clock_def toordinal_ex_date toordinal_ex_last_year)
  moreover have "isocalendar_week (now ex_clock) = 45"
    by (simp add: ex_clock_def week_ex_date)
  moreover have "initialize_post ex_stale ex_db ex_clock
       = Returned (ex_stale\<lparr>editable_weekly_post := Some \<lparr>msg_id = 7, content = ex_live_post\<rparr>\<rparr>)"
    by (simp add: initialize_post_def ex_stale_def ex_live_def ex_clock_def truthy_id_def
          week_ex_date week_ex_last_year fetch_message_def)
  ultimately show ?thesis
    using week_ex_last_year by simp
qed

text \<open>
  Where \<open>initialize_post\<close> creates a post, it writes the id and the timestamp to the file
  and leaves the fields \<open>editable_weekly_post_id\<close> and \<open>weekly_post_timestamp\<close> as the
  constructor loaded them. A second call on the same manager therefore creates a second
  post, although the file then names a post of the current week.
\<close>

lemma initialize_post_creates:
  assumes week: "\<not> (truthy_id (editable_weekly_post_id self)
              \<and> map_option isocalendar_week (weekly_post_timestamp self)
                  = Some (isocalendar_week (now clk)))"
    and roster: "team_members self \<noteq> []"
    and perm: "permitted (channel self)"
    and valid: "valid_date (utcnow clk)"
  shows "\<exists>self'. initialize_post self db clk = Returned self'
     \<and> editable_weekly_post self' =
          Some \<lparr>msg_id = next_id (channel self) + 2,
                content = join [newline]
                  (map (\<lambda>m. member_line_text (max_name_length self) (name m) five_question_marks
                              (get_streak db (discord_id m))) (team_members self))\<rparr>
     \<and> messages (channel self') (next_id (channel self) + 2) =
         Some (join [newline]
                  (map (\<lambda>m. member_line_text (max_name_length self) (name m) five_question_marks
                              (get_streak db (discord_id m))) (team_members self)))
     \<and> weekly_post_data_json self' =
          Some (Object (Some (next_id (channel self) + 2)) (Timestamp (now clk)))
     \<and> editable_weekly_post_id self' = editable_weekly_post_id self
     \<and> weekly_post_timestamp self' = weekly_post_timestamp self
     \<and> team_members self' = team_members self
     \<and> max_name_length self' = max_name_length self
     \<and> permitted (channel self') \<and> next_id (channel self') = next_id (channel self) + 3"
proof -
  let ?monday = "minus_days (utcnow clk) (weekday (utcnow clk))"
  obtain a where a: "format_date ?monday = Inr a"
    using format_date_returns [OF valid_minus_days [OF valid]] by blast
  obtain b where b: "format_date (plus_days ?monday 6) = Inr b"
    using format_date_returns [OF valid_plus_days [OF valid_minus_days [OF valid]]] by blast
  obtain m ms where ms: "team_members self = m # ms"
    using roster by (cases "team_members self") auto
  have ne: "join [newline]
      (map (\<lambda>m. member_line_text (max_name_length self) (name m) five_question_marks
                  (get_streak db (discord_id m))) (team_members self)) \<noteq> []"
    by (simp add: ms join_nonempty member_line_text_nonempty)
  from week have w: "(truthy_id (editable_weekly_post_id self)
       \<and> Some (isocalendar_week (now clk)) = map_option isocalendar_week (weekly_post_timestamp self))
       = False"
    by (cases "weekly_post_timestamp self") auto
  show ?thesis
    unfolding initialize_post_def Let_def
    using a b perm ne
    by (simp add: w send_def save_weekly_post_data_def)
qed

lemma initialize_post_twice:
  assumes week: "\<not> (truthy_id (editable_weekly_post_id self)
              \<and> map_option isocalendar_week (weekly_post_timestamp self)
                  = Some (isocalendar_week (now clk)))"
    and roster: "team_members self \<noteq> []"
    and perm: "permitted (channel self)"
    and valid: "valid_date (utcnow clk)"
  shows "\<exists>self1 self2. initialize_post self db clk = Returned self1
     \<and> weekly_post_data_json self1 =
          Some (Object (Some (next_id (channel self) + 2)) (Timestamp (now clk)))
     \<and> initialize_post self1 db clk = Returned self2
     \<and> map_option msg_id (editable_weekly_post self2) = Some (next_id (channel self) + 5)"
proof -
  from initialize_post_creates [OF assms, of db]
  obtain self1 where 1: "initialize_post self db clk = Returned self1"
    and f: "weekly_post_data_json self1 =
          Some (Object (Some (next_id (channel self) + 2)) (Timestamp (now clk)))"
    and same: "editable_weekly_post_id self1 = editable_weekly_post_id self"
      "weekly_post_timestamp self1 = weekly_post_timestamp self"
      "team_members self1 = team_members self"
    and ch: "permitted (channel self1)" "next_id (channel self1) = next_id (channel self) + 3"
    by blast
  from week same have week1: "\<not> (truthy_id (editable_weekly_post_id self1)
              \<and> map_option isocalendar_week (weekly_post_timestamp self1)
                  = Some (isocalendar_week (now clk)))"
    by simp
  from roster same have roster1: "team_members self1 \<noteq> []" by simp
  from initialize_post_creates [OF week1 roster1 ch(1) valid, of db]
  obtain self2 where 2: "initialize_post self1 db clk = Returned self2"
    and p: "map_option msg_id (editable_weekly_post self2) = Some (next_id (channel self1) + 2)"
    by auto
  from p ch(2) have "map_option msg_id (editable_weekly_post self2) = Some (next_id (channel self) + 5)"
    by (auto simp: add.commute)
  with 1 f 2 show ?thesis by blast
qed


section \<open>The edges of rebuilding\<close>

text \<open>
  Claim C10. Without a live post and with a roster that is not empty, \<open>rebuild_post\<close> sends
  a post with the single line of the first roster member: the padded name, five question
  marks and the stored streak, with \<open>day\<close> for 1 and \<open>days\<close> for any other number. It
  writes the id of that post to the file and returns; the other members are not rendered.
  With an empty roster it deletes the live post, if there is one, and holds no post
  afterwards.
\<close>

theorem rebuild_post_edge_cases:
  "(team_members self = first_member # others \<and> editable_weekly_post self = None
      \<and> permitted (channel self)
    \<longrightarrow> (\<exists>self' line.
          line = ascii ''# `'' @ ljust (name first_member) (max_name_length self) @ ascii '' ''
                   @ replicate 5 question_mark @ ascii '' (Streak: ''
                   @ str_int (get_streak db (discord_id first_member))
                   @ (if get_streak db (discord_id first_member) = 1 then ascii '' day)`''
                      else ascii '' days)`'')
          \<and> rebuild_post self db clk = Returned self'
          \<and> editable_weekly_post self' = Some \<lparr>msg_id = next_id (channel self), content = line\<rparr>
          \<and> messages (channel self') = (messages (channel self))(next_id (channel self) \<mapsto> line)
          \<and> weekly_post_data_json self' =
               Some (Object (Some (next_id (channel self))) (Timestamp (now clk)))
          \<and> team_members self' = team_members self))
   \<and> (team_members self = [] \<and> editable_weekly_post self = None
    \<longrightarrow> rebuild_post self db clk = Returned self)
   \<and> (team_members self = [] \<and> editable_weekly_post self = Some post
      \<and> permitted (channel self) \<and> messages (channel self) (msg_id post) \<noteq> None
    \<longrightarrow> (\<exists>self'. rebuild_post self db clk = Returned self'
          \<and> editable_weekly_post self' = None
          \<and> messages (channel self') = (messages (channel self))(msg_id post := None)))"
proof (intro conjI impI)
  assume "team_members self = first_member # others \<and> editable_weekly_post self = None
      \<and> permitted (channel self)"
  then show "\<exists>self' line.
          line = ascii ''# `'' @ ljust (name first_member) (max_name_length self) @ ascii '' ''
                   @ replicate 5 question_mark @ ascii '' (Streak: ''
                   @ str_int (get_streak db (discord_id first_member))
                   @ (if get_streak db (discord_id first_member) = 1 then ascii '' day)`''
                      else ascii '' days)`'')
          \<and> rebuild_post self db clk = Returned self'
          \<and> editable_weekly_post self' = Some \<lparr>msg_id = next_id (channel self), content = line\<rparr>
          \<and> messages (channel self') = (messages (channel self))(next_id (channel self) \<mapsto> line)
          \<and> weekly_post_data_json self' =
               Some (Object (Some (next_id (channel self))) (Timestamp (now clk)))
          \<and> team_members self' = team_members self"
    by (simp add: rebuild_post_def Let_def send_def save_weekly_post_data_def
          member_line_text_def five_question_marks_def day_suffix_def ascii_def)
next
  assume "team_members self = [] \<and> editable_weekly_post self = None"
  then show "rebuild_post self db clk = Returned self"
    by (simp add: rebuild_post_def)
next
  assume "team_members self = [] \<and> editable_weekly_post self = Some post
      \<and> permitted (channel self) \<and> messages (channel self) (msg_id post) \<noteq> None"
  then show "\<exists>self'. rebuild_post self db clk = Returned self'
          \<and> editable_weekly_post self' = None
          \<and> messages (channel self') = (messages (channel self))(msg_id post := None)"
    by (auto simp: rebuild_post_def delete_def)
qed

theorem rebuild_post_edge_cases_witness:
  "(team_members ex_fresh = ex_alice # [ex_bob] \<and> editable_weekly_post ex_fresh = None
      \<and> permitted (channel ex_fresh))
   \<and> (\<exists>self'. rebuild_post ex_fresh ex_db ex_clock = Returned self'
          \<and> editable_weekly_post self' =
               Some \<lparr>msg_id = 1,
                     content = ascii ''# `Alice '' @ replicate 5 question_mark
                                 @ ascii '' (Streak: 0 days)`''\<rparr>
          \<and> messages (channel self') =
               [1 \<mapsto> ascii ''# `Alice '' @ replicate 5 question_mark @ ascii '' (Streak: 0 days)`'']
          \<and> weekly_post_data_json self' = Some (Object (Some 1) (Timestamp ex_date)))
   \<and> (team_members ex_empty = [] \<and> editable_weekly_post ex_empty = None)
   \<and> rebuild_post ex_empty ex_db ex_clock = Returned ex_empty
   \<and> (team_members ex_emptied = []
      \<and> editable_weekly_post ex_emptied = Some \<lparr>msg_id = 7, content = ex_live_post\<rparr>
      \<and> permitted (channel ex_emptied) \<and> messages (channel ex_emptied) 7 \<noteq> None)
   \<and> (\<exists>self'. rebuild_post ex_emptied ex_db ex_clock = Returned self'
          \<and> editable_weekly_post self' = None \<and> messages (channel self') = Map.empty)"
proof -
  have h1: "team_members ex_fresh = ex_alice # [ex_bob] \<and> editable_weekly_post ex_fresh = None
      \<and> permitted (channel ex_fresh)"
    by (simp add: ex_fresh_def ex_channel_def)
  have h2: "team_members ex_empty = [] \<and> editable_weekly_post ex_empty = None"
    by (simp add: ex_empty_def ex_fresh_def)
  have h3: "team_members ex_emptied = []
      \<and> editable_weekly_post ex_emptied = Some \<lparr>msg_id = 7, content = ex_live_post\<rparr>
      \<and> permitted (channel ex_emptied)
      \<and> messages (channel ex_emptied) (msg_id \<lparr>msg_id = 7, content = ex_live_post\<rparr>) \<noteq> None"
    by (simp add: ex_emptied_def ex_live_def)
  have v: "next_id (channel ex_fresh) = 1" "now ex_clock = ex_date"
    "messages (channel ex_fresh) = Map.empty"
    "ascii ''# `'' @ ljust (name ex_alice) (max_name_length ex_fresh) @ ascii '' ''
       @ replicate 5 question_mark @ ascii '' (Streak: ''
       @ str_int (get_streak ex_db (discord_id ex_alice))
       @ (if get_streak ex_db (discord_id ex_alice) = 1 then ascii '' day)`''
          else ascii '' days)`'')
     = ascii ''# `Alice '' @ replicate 5 question_mark @ ascii '' (Streak: 0 days)`''"
    by (simp_all add: ex_fresh_def ex_channel_def ex_clock_def ex_alice_def ex_db_def
          get_streak_def string_eval)
  have w: "(messages (channel ex_emptied))(msg_id \<lparr>msg_id = 7, content = ex_live_post\<rparr> := None)
      = Map.empty"
    by (simp add: ex_emptied_def ex_live_def)
  from rebuild_post_edge_cases
         [where self = ex_fresh and first_member = ex_alice and others = "[ex_bob]"
            and db = ex_db and clk = ex_clock] h1
  have a: "\<exists>self'. rebuild_post ex_fresh ex_db ex_clock = Returned self'
          \<and> editable_weekly_post self' =
               Some \<lparr>msg_id = 1,
                     content = ascii ''# `Alice '' @ replicate 5 question_mark
                                 @ ascii '' (Streak: 0 days)`''\<rparr>
          \<and> messages (channel self') =
               [1 \<mapsto> ascii ''# `Alice '' @ replicate 5 question_mark @ ascii '' (Streak: 0 days)`'']
          \<and> weekly_post_data_json self' = Some (Object (Some 1) (Timestamp ex_date))"
    unfolding v by blast
  from rebuild_post_edge_cases [where self = ex_empty and db = ex_db and clk = ex_clock] h2
  have b: "rebuild_post ex_empty ex_db ex_clock = Returned ex_empty"
    by blast
  from rebuild_post_edge_cases
         [where self = ex_emptied and db = ex_db and clk = ex_clock
            and post = "\<lparr>msg_id = 7, content = ex_live_post\<rparr>"] h3
  have c: "\<exists>self'. rebuild_post ex_emptied ex_db ex_clock = Returned self'
          \<and> editable_weekly_post self' = None \<and> messages (channel self') = Map.empty"
    unfolding w by blast
  from h3 have h3': "team_members ex_emptied = []
      \<and> editable_weekly_post ex_emptied = Some \<lparr>msg_id = 7, content = ex_live_post\<rparr>
      \<and> permitted (channel ex_emptied) \<and> messages (channel ex_emptied) 7 \<noteq> None"
    by simp
  from h1 a h2 b h3' c show ?thesis by blast
qed


section \<open>A check-in after the last slot\<close>

lemmas collision_eval =
  ex_bobby_line_def ex_bob_line_with_def ex_bob_checkins_def ex_done_under_pending_def
  ex_done_rewritten_def ex_collision_post_def ex_bob_def ex_bobby_def ex_db_def get_streak_def
  string_eval

lemma update_post_collision_with:
  assumes "patched_content c (name m) 5 (get_streak db (discord_id m)) = Some c'"
  shows "update_post (ex_collision_with c) m db = Returned (ex_collision_with c')"
  using assms by (simp add: update_post_def ex_collision_with_def ex_collision_def edit_def)

lemma collision_start: "ex_collision = ex_collision_with ex_collision_post"
  by (simp add: ex_collision_with_def ex_collision_def)

lemma bob_checkin_1:
  "patched_content ex_collision_post (name ex_bob) 5 (get_streak ex_db (discord_id ex_bob))
     = Some (ex_bob_checkins 1)"
  by (simp add: patched_content_def collision_eval)

lemma bob_checkin_2:
  "patched_content (ex_bob_checkins 1) (name ex_bob) 5 (get_streak ex_db (discord_id ex_bob))
     = Some (ex_bob_checkins 2)"
  by (simp add: patched_content_def collision_eval)

lemma bob_checkin_3:
  "patched_content (ex_bob_checkins 2) (name ex_bob) 5 (get_streak ex_db (discord_id ex_bob))
     = Some (ex_bob_checkins 3)"
  by (simp add: patched_content_def collision_eval)

lemma bob_checkin_4:
  "patched_content (ex_bob_checkins 3) (name ex_bob) 5 (get_streak ex_db (discord_id ex_bob))
     = Some (ex_bob_checkins 4)"
  by (simp add: patched_content_def collision_eval)

lemma bob_checkin_5:
  "patched_content (ex_bob_checkins 4) (name ex_bob) 5 (get_streak ex_db (discord_id ex_bob))
     = Some (ex_bob_checkins 5)"
  by (simp add: patched_content_def collision_eval)

lemma bob_rebuilt:
  "rebuilt_content 5 [ex_bobby, ex_bob] ex_db (ex_bob_checkins 5) = ex_done_under_pending"
  by (simp add: rebuilt_content_def existing_marks_def collision_eval)

lemma bob_rebuild:
  "rebuild_post (ex_collision_with (ex_bob_checkins 5)) ex_db ex_clock
     = Returned (ex_collision_with ex_done_under_pending)"
  by (simp add: rebuild_post_def bob_rebuilt ex_collision_with_def ex_collision_def edit_def)

lemma bob_checkin_6:
  "patched_content ex_done_under_pending (name ex_bob) 5 (get_streak ex_db (discord_id ex_bob))
     = Some ex_done_rewritten"
  by (simp add: patched_content_def collision_eval)

text \<open>
  Claim C3 on the code. \<open>update_post\<close> returns without editing when no line contains the
  name and when the line it locates holds no question mark, but that line is the first
  one that contains the name as a substring. Start from the post of Bobby and Bob with
  every slot pending. Five check-ins of Bob and a rebuild give a post in which the line
  of Bob has all five slots done, below the line of Bobby with five slots pending. A
  further check-in of Bob is not without effect: it rewrites the line of Bobby, which
  then carries the name of Bob and one slot done.
\<close>

theorem update_post_after_last_slot:
  "update_post ex_collision ex_bob ex_db = Returned (ex_collision_with (ex_bob_checkins 1))
   \<and> update_post (ex_collision_with (ex_bob_checkins 1)) ex_bob ex_db
       = Returned (ex_collision_with (ex_bob_checkins 2))
   \<and> update_post (ex_collision_with (ex_bob_checkins 2)) ex_bob ex_db
       = Returned (ex_collision_with (ex_bob_checkins 3))
   \<and> update_post (ex_collision_with (ex_bob_checkins 3)) ex_bob ex_db
       = Returned (ex_collision_with (ex_bob_checkins 4))
   \<and> update_post (ex_collision_with (ex_bob_checkins 4)) ex_bob ex_db
       = Returned (ex_collision_with (ex_bob_checkins 5))
   \<and> rebuild_post (ex_collision_with (ex_bob_checkins 5)) ex_db ex_clock
       = Returned (ex_collision_with ex_done_under_pending)
   \<and> ex_done_under_pending =
       ascii ''# `Bobby '' @ replicate 5 question_mark @ ascii '' (Streak: 0 days)`'' @ [newline]
         @ ascii ''# `Bob   '' @ replicate 5 check_mark @ ascii '' (Streak: 0 days)`''
   \<and> update_post (ex_collision_with ex_done_under_pending) ex_bob ex_db
       = Returned (ex_collision_with ex_done_rewritten)
   \<and> map_option content (editable_weekly_post (ex_collision_with ex_done_rewritten)) =
       Some (ascii ''# `Bob   '' @ [check_mark] @ replicate 4 question_mark
               @ ascii '' (Streak: 0 days)`'' @ [newline]
               @ ascii ''# `Bob   '' @ replicate 5 check_mark @ ascii '' (Streak: 0 days)`'')"
proof -
  have "ex_done_under_pending =
       ascii ''# `Bobby '' @ replicate 5 question_mark @ ascii '' (Streak: 0 days)`'' @ [newline]
         @ ascii ''# `Bob   '' @ replicate 5 check_mark @ ascii '' (Streak: 0 days)`''"
    by (simp add: collision_eval)
  moreover have "map_option content (editable_weekly_post (ex_collision_with ex_done_rewritten)) =
       Some (ascii ''# `Bob   '' @ [check_mark] @ replicate 4 question_mark
               @ ascii '' (Streak: 0 days)`'' @ [newline]
               @ ascii ''# `Bob   '' @ replicate 5 check_mark @ ascii '' (Streak: 0 days)`'')"
    by (simp add: ex_collision_with_def collision_eval)
  moreover note update_post_collision_with [OF bob_checkin_1, folded collision_start]
    update_post_collision_with [OF bob_checkin_2] update_post_collision_with [OF bob_checkin_3]
    update_post_collision_with [OF bob_checkin_4] update_post_collision_with [OF bob_checkin_5]
    bob_rebuild update_post_collision_with [OF bob_checkin_6]
  ultimately show ?thesis by simp
qed


section \<open>Closing the week\<close>

lemmas week_eval =
  ex_bobby_line_with_def ex_bob_idle_line_def ex_bobby_checkins_def ex_week_db_def
  ex_bob_def ex_bobby_def ex_db_def get_streak_def string_eval

lemma bobby_checkin_1:
  "patched_content (ex_bobby_checkins 0) (name ex_bobby) 5 (get_streak ex_week_db (discord_id ex_bobby))
     = Some (ex_bobby_checkins 1)"
  by (simp add: patched_content_def week_eval)

lemma bobby_checkin_2:
  "patched_content (ex_bobby_checkins 1) (name ex_bobby) 5 (get_streak ex_week_db (discord_id ex_bobby))
     = Some (ex_bobby_checkins 2)"
  by (simp add: patched_content_def week_eval)

lemma bobby_checkin_3:
  "patched_content (ex_bobby_checkins 2) (name ex_bobby) 5 (get_streak ex_week_db (discord_id ex_bobby))
     = Some (ex_bobby_checkins 3)"
  by (simp add: patched_content_def week_eval)

lemma bobby_checkin_4:
  "patched_content (ex_bobby_checkins 3) (name ex_bobby) 5 (get_streak ex_week_db (discord_id ex_bobby))
     = Some (ex_bobby_checkins 4)"
  by (simp add: patched_content_def week_eval)

lemma bobby_checkin_5:
  "patched_content (ex_bobby_checkins 4) (name ex_bobby) 5 (get_streak ex_week_db (discord_id ex_bobby))
     = Some (ex_bobby_checkins 5)"
  by (simp add: patched_content_def week_eval)

lemma bob_read_as_bobby:
  "existing_line (ex_bobby_checkins 5) (name ex_bob) 5 = Some (replicate 5 check_mark)"
  by (simp add: existing_line_def week_eval Let_def)

lemma bobby_read:
  "existing_line (ex_bobby_checkins 5) (name ex_bobby) 5 = Some (replicate 5 check_mark)"
  by (simp add: existing_line_def week_eval Let_def)

text \<open>
  Claim C7 on the code. \<open>has_minimum_checkmarks\<close> reads the five characters that follow the
  first place of the post where the name occurs as a substring, and \<open>reset_streaks\<close> resets
  the members for which it answers no. Start from the post of Bobby and Bob with every
  slot pending and a stored streak of 2 for Bob. After five check-ins of Bobby the line of
  Bobby has five slots done and the line of Bob has none. For Bob the method reads the
  marks of Bobby, whose line comes first and contains \<open>Bob\<close>, and answers yes:
  \<open>reset_streaks\<close> leaves the stored streak of Bob at 2 and the table as it was.
\<close>

theorem reset_streaks_keeps_idle_member:
  "update_post (ex_collision_with (ex_bobby_checkins 0)) ex_bobby ex_week_db
     = Returned (ex_collision_with (ex_bobby_checkins 1))
   \<and> update_post (ex_collision_with (ex_bobby_checkins 1)) ex_bobby ex_week_db
       = Returned (ex_collision_with (ex_bobby_checkins 2))
   \<and> update_post (ex_collision_with (ex_bobby_checkins 2)) ex_bobby ex_week_db
       = Returned (ex_collision_with (ex_bobby_checkins 3))
   \<and> update_post (ex_collision_with (ex_bobby_checkins 3)) ex_bobby ex_week_db
       = Returned (ex_collision_with (ex_bobby_checkins 4))
   \<and> update_post (ex_collision_with (ex_bobby_checkins 4)) ex_bobby ex_week_db
       = Returned (ex_collision_with (ex_bobby_checkins 5))
   \<and> map_option content (editable_weekly_post (ex_collision_with (ex_bobby_checkins 5))) =
       Some (ascii ''# `Bobby '' @ replicate 5 check_mark @ ascii '' (Streak: 0 days)`''
               @ [newline]
               @ ascii ''# `Bob   '' @ replicate 5 question_mark @ ascii '' (Streak: 2 days)`'')
   \<and> team_members (ex_collision_with (ex_bobby_checkins 5)) = [ex_bobby, ex_bob]
   \<and> has_minimum_checkmarks (ex_collision_with (ex_bobby_checkins 5)) ex_bob 5 = Inr True
   \<and> get_streak ex_week_db (discord_id ex_bob) = 2
   \<and> reset_streaks (ex_collision_with (ex_bobby_checkins 5)) ex_week_db = Returned ex_week_db"
proof -
  have "map_option content (editable_weekly_post (ex_collision_with (ex_bobby_checkins 5))) =
       Some (ascii ''# `Bobby '' @ replicate 5 check_mark @ ascii '' (Streak: 0 days)`''
               @ [newline]
               @ ascii ''# `Bob   '' @ replicate 5 question_mark @ ascii '' (Streak: 2 days)`'')"
    by (simp add: ex_collision_with_def week_eval)
  moreover have "team_members (ex_collision_with (ex_bobby_checkins 5)) = [ex_bobby, ex_bob]"
    by (simp add: ex_collision_with_def ex_collision_def)
  moreover have b: "has_minimum_checkmarks (ex_collision_with (ex_bobby_checkins 5)) ex_bob 5 = Inr True"
    by (simp add: has_minimum_checkmarks_def ex_collision_with_def ex_collision_def
          bob_read_as_bobby replicate_numeral)
  moreover have "get_streak ex_week_db (discord_id ex_bob) = 2"
    by (simp add: week_eval)
  moreover have "has_minimum_checkmarks (ex_collision_with (ex_bobby_checkins 5)) ex_bobby 5 = Inr True"
    by (simp add: has_minimum_checkmarks_def ex_collision_with_def ex_collision_def
          bobby_read replicate_numeral)
  with b have "reset_streaks (ex_collision_with (ex_bobby_checkins 5)) ex_week_db = Returned ex_week_db"
    by (simp add: reset_streaks_def ex_collision_with_def ex_collision_def)
  moreover note update_post_collision_with [OF bobby_checkin_1]
    update_post_collision_with [OF bobby_checkin_2] update_post_collision_with [OF bobby_checkin_3]
    update_post_collision_with [OF bobby_checkin_4] update_post_collision_with [OF bobby_checkin_5]
  ultimately show ?thesis by simp
qed


section \<open>Reading the marks back\<close>

lemma split_on_nonempty: "split_on sep s \<noteq> []"
  by (induction s) (auto split: list.splits)

lemma split_on_single: "sep \<notin> set l \<Longrightarrow> split_on sep l = [l]"
  by (induction l) auto

lemma split_on_append: "sep \<notin> set l \<Longrightarrow> split_on sep (l @ sep # rest) = l # split_on sep rest"
  by (induction l) auto

lemma split_on_join:
  "ls \<noteq> [] \<Longrightarrow> \<forall>l \<in> set ls. sep \<notin> set l \<Longrightarrow> split_on sep (join [sep] ls) = ls"
proof (induction "[sep]" ls rule: join.induct)
  case 1
  then show ?case by simp
next
  case (2 x)
  then show ?case by (simp add: split_on_single)
next
  case (3 x y ys)
  then show ?case by (simp add: split_on_append)
qed

lemma split_on_lines: "l \<in> set (split_on sep s) \<Longrightarrow> sep \<notin> set l"
proof (induction s arbitrary: l)
  case Nil
  then show ?case by simp
next
  case (Cons c cs)
  obtain l0 ls where s: "split_on sep cs = l0 # ls"
    using split_on_nonempty [of sep cs] by (cases "split_on sep cs") auto
  from Cons.IH [of l0] s have l0: "sep \<notin> set l0" by simp
  from Cons.IH s have ls: "\<And>x. x \<in> set ls \<Longrightarrow> sep \<notin> set x" by simp
  from Cons.prems s l0 ls show ?case by (auto split: if_splits)
qed

lemma py_find_single:
  "py_find s [c] = (if c \<in> set s then int (length (takeWhile (\<lambda>x. x \<noteq> c) s)) else - 1)"
  by (induction s) (auto simp: Let_def)

lemma slice_five: "0 \<le> a \<Longrightarrow> slice s a (a + 5) = take 5 (drop (nat a) s)"
  by (auto simp: slice_def clamp_index_def Let_def min_def nat_add_distrib)

lemma drop_takeWhile_length: "drop (length (takeWhile P s)) s = dropWhile P s"
  by (induction s) auto

lemma existing_marks_found:
  assumes "find (py_in nm) (split_on newline c) = Some l" and "l \<noteq> []"
  shows "existing_marks c nm =
           (if check_mark \<in> set l then take 5 (dropWhile (\<lambda>x. x \<noteq> check_mark) l)
            else if question_mark \<in> set l then take 5 (dropWhile (\<lambda>x. x \<noteq> question_mark) l)
            else five_question_marks)"
  using assms
  by (simp add: existing_marks_def Let_def py_find_single slice_five drop_takeWhile_length)

lemma existing_marks_shape:
  "existing_marks c nm \<noteq> []
   \<and> (hd (existing_marks c nm) = check_mark
      \<or> (check_mark \<notin> set (existing_marks c nm) \<and> hd (existing_marks c nm) = question_mark))"
proof (cases "find (py_in nm) (split_on newline c)")
  case None
  then show ?thesis by (simp add: existing_marks_def five_question_marks_def replicate_numeral)
next
  case (Some l)
  show ?thesis
  proof (cases "l = []")
    case True
    with Some show ?thesis
      by (simp add: existing_marks_def five_question_marks_def replicate_numeral)
  next
    case False
    have hdw: "\<And>x. x \<in> set l \<Longrightarrow> dropWhile (\<lambda>y. y \<noteq> x) l \<noteq> []
                 \<and> hd (dropWhile (\<lambda>y. y \<noteq> x) l) = x"
      using hd_dropWhile [of "\<lambda>y. y \<noteq> _" l] by (auto simp: dropWhile_eq_Nil_conv)
    have sub: "\<And>x. set (take 5 (dropWhile (\<lambda>y. y \<noteq> x) l)) \<subseteq> set l"
      by (meson set_dropWhileD set_take_subset subset_iff)
    show ?thesis
      unfolding existing_marks_found [OF Some False]
      using hdw [of check_mark] hdw [of question_mark] sub [of question_mark]
      by (auto simp: five_question_marks_def replicate_numeral hd_take take_eq_Nil)
  qed
qed

lemma existing_marks_no_newline: "newline \<notin> set (existing_marks c nm)"
proof (cases "find (py_in nm) (split_on newline c)")
  case None
  then show ?thesis by (simp add: existing_marks_def five_question_marks_def)
next
  case (Some l)
  then have "l \<in> set (split_on newline c)" by (auto simp: find_Some_iff)
  then have nl: "newline \<notin> set l" by (rule split_on_lines)
  have sub: "\<And>x. set (take 5 (dropWhile (\<lambda>y. y \<noteq> x) l)) \<subseteq> set l"
    by (meson set_dropWhileD set_take_subset subset_iff)
  show ?thesis
  proof (cases "l = []")
    case True
    with Some show ?thesis by (simp add: existing_marks_def five_question_marks_def)
  next
    case False
    show ?thesis
      unfolding existing_marks_found [OF Some False]
      using nl sub by (auto simp: five_question_marks_def)
  qed
qed

lemma set_digits: "set (digits n) \<subseteq> {48..57}"
proof (induction n rule: digits.induct)
  case (1 n)
  show ?case
  proof (cases "n < 10")
    case True
    then show ?thesis by (subst digits.simps) auto
  next
    case False
    have "n mod 10 < 10" by simp
    then have "48 + n mod 10 \<in> {48..57}" by auto
    with 1 False show ?thesis by (subst digits.simps) auto
  qed
qed

lemma set_str_int: "set (str_int i) \<subseteq> {45} \<union> {48..57}"
  using set_digits by (auto simp: str_int_def)




section \<open>Rebuilding twice\<close>


lemmas marked_eval =
  ex_marked_post_def ex_marked_db_def ex_alice_def ex_bob_def ex_db_def get_streak_def string_eval






section \<open>Alignment\<close>

lemma max_len_Max: "max_len ms = Max (set (0 # map (\<lambda>m. length (name m)) ms))"
  by (simp only: max_len_def Max.set_eq_fold)

lemma name_le_max_len: "m \<in> set ms \<Longrightarrow> length (name m) \<le> max_len ms"
  unfolding max_len_Max by (rule Max_ge) auto

lemma member_line_no_newline:
  assumes "newline \<notin> set nm" and "newline \<notin> set marks"
  shows "newline \<notin> set (member_line_text w nm marks s)"
  using assms set_str_int [of s]
  by (auto simp: member_line_text_def ascii_def ljust_def day_suffix_def)

lemma take_whole_prefix: "length xs = n \<Longrightarrow> take n (xs @ ys) = xs"
  by simp

lemma drop_whole_prefix: "length xs = n \<Longrightarrow> drop n (xs @ ys) = ys"
  by simp

lemma aligned_render:
  assumes ne: "ms \<noteq> []"
    and names: "\<forall>m \<in> set ms. newline \<notin> set (name m)"
    and marks: "\<forall>m \<in> set ms. newline \<notin> set (marks m) \<and> marks m \<noteq> []
                  \<and> (hd (marks m) = check_mark \<or> hd (marks m) = question_mark)"
  shows "aligned ms
           (join [newline]
              (map (\<lambda>m. member_line_text (max_len ms) (name m) (marks m) (streak m)) ms))"
proof -
  let ?w = "max_len ms"
  let ?line = "\<lambda>m. member_line_text ?w (name m) (marks m) (streak m)"
  have "\<forall>l \<in> set (map ?line ms). newline \<notin> set l"
    using names marks member_line_no_newline by fastforce
  with ne have split: "split_on newline (join [newline] (map ?line ms)) = map ?line ms"
    by (intro split_on_join) auto
  have one: "take (?w + 4) (?line m)
               = ascii ''# `'' @ name m @ replicate (?w - length (name m)) space @ [space]
             \<and> (case drop (?w + 4) (?line m) of
                   [] \<Rightarrow> False
                 | x # _ \<Rightarrow> x = check_mark \<or> x = question_mark)"
    if m: "m \<in> set ms" for m
  proof -
    let ?pre = "ascii ''# `'' @ name m @ replicate (?w - length (name m)) space @ [space]"
    let ?suf = "ascii '' (Streak: '' @ str_int (streak m) @ ascii '' '' @ day_suffix (streak m)
                  @ ascii '')`''"
    have len: "length ?pre = ?w + 4"
      using name_le_max_len [OF m] by (simp add: ascii_def)
    have line: "?line m = ?pre @ marks m @ ?suf"
      by (simp add: member_line_text_def ljust_def ascii_def)
    obtain x rest where x: "marks m = x # rest" "x = check_mark \<or> x = question_mark"
      using marks m by (cases "marks m") auto
    have "take (?w + 4) (?pre @ marks m @ ?suf) = ?pre"
      by (rule take_whole_prefix [OF len])
    moreover have "drop (?w + 4) (?pre @ marks m @ ?suf) = marks m @ ?suf"
      by (rule drop_whole_prefix [OF len])
    ultimately show ?thesis unfolding line using x by simp
  qed
  show ?thesis
    unfolding aligned_def Let_def split max_len_Max [symmetric]
    by (simp add: list_all2_map2 list_all2_same one)
qed

lemma rebuild_post_live:
  assumes "editable_weekly_post self = Some p" and "team_members self \<noteq> []"
    and "permitted (channel self)" and "messages (channel self) (msg_id p) \<noteq> None"
  shows "rebuild_post self db clk =
           Returned (self\<lparr>channel := (channel self)
                              \<lparr>messages := (messages (channel self))
                                 (msg_id p \<mapsto> rebuilt_content (max_name_length self)
                                                (team_members self) db (content p))\<rparr>,
                           editable_weekly_post :=
                             Some (p\<lparr>content := rebuilt_content (max_name_length self)
                                                  (team_members self) db (content p)\<rparr>)\<rparr>)"
  using assms by (auto simp: rebuild_post_def edit_def)

lemma aligned_rebuilt:
  assumes "ms \<noteq> []" and "\<forall>m \<in> set ms. newline \<notin> set (name m)"
  shows "aligned ms (rebuilt_content (max_len ms) ms db c)"
  unfolding rebuilt_content_def
  using assms existing_marks_shape existing_marks_no_newline
  by (intro aligned_render) auto

lemma aligned_initial:
  assumes "ms \<noteq> []" and "\<forall>m \<in> set ms. newline \<notin> set (name m)"
  shows "aligned ms
           (join [newline]
              (map (\<lambda>m. member_line_text (max_len ms) (name m) five_question_marks
                          (get_streak db (discord_id m))) ms))"
  using assms by (intro aligned_render) (auto simp: five_question_marks_def replicate_numeral)

lemma ann_lee_rebuilt:
  "rebuilt_content 7 [ex_alice, ex_bob, ex_ann_lee] ex_marked_db ex_marked_post = ex_misaligned_post"
  by (simp add: rebuilt_content_def existing_marks_def ex_misaligned_post_def ex_ann_lee_def
        marked_eval)

text \<open>
  Claim C6, as stated, fails for a name that holds a line break: its line of the post is
  cut in two, and the marks of the second part do not stand in the column of the others.
  With \<open>Ann\<close>, line break, \<open>Lee\<close> added to the post of Alice and Bob, the rebuilt post
  has four lines for three members.
\<close>

theorem newline_name_counterexample:
  "add_member_to_post ex_marked ex_ann_lee ex_marked_db ex_clock = Returned ex_misaligned
   \<and> map_option content (editable_weekly_post ex_misaligned) = Some ex_misaligned_post
   \<and> split_on newline ex_misaligned_post =
       [ascii ''# `Alice   '' @ replicate 2 check_mark @ replicate 3 question_mark
          @ ascii '' (Streak: 2 days)`'',
        ascii ''# `Bob     '' @ replicate 5 question_mark @ ascii '' (Streak: 0 days)`'',
        ascii ''# `Ann'',
        ascii ''Lee '' @ replicate 5 question_mark @ ascii '' (Streak: 0 days)`'']
   \<and> \<not> aligned (team_members ex_misaligned) ex_misaligned_post"
proof -
  have w: "max_len [ex_alice, ex_bob, ex_ann_lee] = 7"
    by (simp add: max_len_def ex_alice_def ex_bob_def ex_ann_lee_def ascii_def)
  have "add_member_to_post ex_marked ex_ann_lee ex_marked_db ex_clock = Returned ex_misaligned"
    by (simp add: add_member_to_post_def rebuild_post_def ex_marked_def ex_misaligned_def w
          ann_lee_rebuilt edit_def)
  moreover have "map_option content (editable_weekly_post ex_misaligned) = Some ex_misaligned_post"
    by (simp add: ex_misaligned_def)
  moreover have l: "split_on newline ex_misaligned_post =
       [ascii ''# `Alice   '' @ replicate 2 check_mark @ replicate 3 question_mark
          @ ascii '' (Streak: 2 days)`'',
        ascii ''# `Bob     '' @ replicate 5 question_mark @ ascii '' (Streak: 0 days)`'',
        ascii ''# `Ann'',
        ascii ''Lee '' @ replicate 5 question_mark @ ascii '' (Streak: 0 days)`'']"
    by (simp add: ex_misaligned_post_def string_eval)
  moreover have "\<not> aligned (team_members ex_misaligned) ex_misaligned_post"
    unfolding aligned_def Let_def l by (simp add: ex_misaligned_def ex_marked_def)
  ultimately show ?thesis by simp
qed

text \<open>
  Claim C6, amended. For a roster whose names hold no line break, every render of the
  whole roster is aligned: the post that \<open>initialize_post\<close> creates, and the live post after
  \<open>rebuild_post\<close>, \<open>add_member_to_post\<close> or \<open>remove_member_from_post\<close>. The width is the length
  of the longest name of the roster as it is after the call: the constructor sets
  \<open>max_name_length\<close> to it, adding and removing a member recompute it, and the other calls
  keep it. The platform has to accept the calls, and the clock to show a calendar date.
\<close>

theorem renders_are_aligned:
  "(init ch ms stored = Returned self0 \<longrightarrow>
      team_members self0 = ms \<and> max_name_length self0 = max_len (team_members self0))
   \<and> ((\<forall>m \<in> set (team_members self). newline \<notin> set (name m))
       \<and> max_name_length self = max_len (team_members self)
       \<and> team_members self \<noteq> [] \<and> permitted (channel self) \<and> valid_date (utcnow clk)
       \<and> \<not> (truthy_id (editable_weekly_post_id self)
              \<and> map_option isocalendar_week (weekly_post_timestamp self)
                  = Some (isocalendar_week (now clk)))
      \<longrightarrow> (\<exists>self' q. initialize_post self db clk = Returned self'
             \<and> editable_weekly_post self' = Some q
             \<and> aligned (team_members self') (content q)
             \<and> max_name_length self' = max_len (team_members self')))
   \<and> ((\<forall>m \<in> set (team_members self). newline \<notin> set (name m))
       \<and> max_name_length self = max_len (team_members self)
       \<and> team_members self \<noteq> [] \<and> permitted (channel self)
       \<and> editable_weekly_post self = Some p \<and> messages (channel self) (msg_id p) \<noteq> None
      \<longrightarrow> (\<exists>self' q. rebuild_post self db clk = Returned self'
             \<and> editable_weekly_post self' = Some q
             \<and> aligned (team_members self') (content q)
             \<and> max_name_length self' = max_len (team_members self')))
   \<and> ((\<forall>m \<in> set (team_members self). newline \<notin> set (name m))
       \<and> newline \<notin> set (name member) \<and> permitted (channel self)
       \<and> editable_weekly_post self = Some p \<and> messages (channel self) (msg_id p) \<noteq> None
      \<longrightarrow> (\<exists>self' q. add_member_to_post self member db clk = Returned self'
             \<and> team_members self' = team_members self @ [member]
             \<and> editable_weekly_post self' = Some q
             \<and> aligned (team_members self') (content q)
             \<and> max_name_length self' = max_len (team_members self')))
   \<and> ((\<forall>m \<in> set (team_members self). newline \<notin> set (name m))
       \<and> filter (\<lambda>m. discord_id m \<noteq> discord_id member) (team_members self) \<noteq> []
       \<and> permitted (channel self)
       \<and> editable_weekly_post self = Some p \<and> messages (channel self) (msg_id p) \<noteq> None
      \<longrightarrow> (\<exists>self' q. remove_member_from_post self member db clk = Returned self'
             \<and> team_members self'
                 = filter (\<lambda>m. discord_id m \<noteq> discord_id member) (team_members self)
             \<and> editable_weekly_post self' = Some q
             \<and> aligned (team_members self') (content q)
             \<and> max_name_length self' = max_len (team_members self')))"
proof (intro conjI impI)
  assume "init ch ms stored = Returned self0"
  then show "team_members self0 = ms" and "max_name_length self0 = max_len (team_members self0)"
    by (auto simp: init_def load_weekly_post_data_def
          split: option.splits json_file.splits timestamp_entry.splits)
next
  assume h: "(\<forall>m \<in> set (team_members self). newline \<notin> set (name m))
       \<and> max_name_length self = max_len (team_members self)
       \<and> team_members self \<noteq> [] \<and> permitted (channel self) \<and> valid_date (utcnow clk)
       \<and> \<not> (truthy_id (editable_weekly_post_id self)
              \<and> map_option isocalendar_week (weekly_post_timestamp self)
                  = Some (isocalendar_week (now clk)))"
  with initialize_post_creates [of self clk db]
  obtain self' where s: "initialize_post self db clk = Returned self'"
    and q: "editable_weekly_post self' =
          Some \<lparr>msg_id = next_id (channel self) + 2,
                content = join [newline]
                  (map (\<lambda>m. member_line_text (max_name_length self) (name m) five_question_marks
                              (get_streak db (discord_id m))) (team_members self))\<rparr>"
    and same: "team_members self' = team_members self"
      "max_name_length self' = max_name_length self"
    by blast
  from h aligned_initial [of "team_members self" db]
  have "aligned (team_members self)
          (join [newline]
             (map (\<lambda>m. member_line_text (max_name_length self) (name m) five_question_marks
                         (get_streak db (discord_id m))) (team_members self)))"
    by simp
  with s q same h
  show "\<exists>self' q. initialize_post self db clk = Returned self'
             \<and> editable_weekly_post self' = Some q
             \<and> aligned (team_members self') (content q)
             \<and> max_name_length self' = max_len (team_members self')"
    by simp
next
  assume h: "(\<forall>m \<in> set (team_members self). newline \<notin> set (name m))
       \<and> max_name_length self = max_len (team_members self)
       \<and> team_members self \<noteq> [] \<and> permitted (channel self)
       \<and> editable_weekly_post self = Some p \<and> messages (channel self) (msg_id p) \<noteq> None"
  then have "rebuild_post self db clk =
           Returned (self\<lparr>channel := (channel self)
                              \<lparr>messages := (messages (channel self))
                                 (msg_id p \<mapsto> rebuilt_content (max_name_length self)
                                                (team_members self) db (content p))\<rparr>,
                           editable_weekly_post :=
                             Some (p\<lparr>content := rebuilt_content (max_name_length self)
                                                  (team_members self) db (content p)\<rparr>)\<rparr>)"
    by (intro rebuild_post_live) auto
  with h aligned_rebuilt [of "team_members self" db "content p"]
  show "\<exists>self' q. rebuild_post self db clk = Returned self'
             \<and> editable_weekly_post self' = Some q
             \<and> aligned (team_members self') (content q)
             \<and> max_name_length self' = max_len (team_members self')"
    by simp
next
  assume h: "(\<forall>m \<in> set (team_members self). newline \<notin> set (name m))
       \<and> newline \<notin> set (name member) \<and> permitted (channel self)
       \<and> editable_weekly_post self = Some p \<and> messages (channel self) (msg_id p) \<noteq> None"
  let ?ms = "team_members self @ [member]"
  let ?s = "self\<lparr>team_members := ?ms, max_name_length := max_len ?ms\<rparr>"
  from h have "rebuild_post ?s db clk =
           Returned (?s\<lparr>channel := (channel ?s)
                              \<lparr>messages := (messages (channel ?s))
                                 (msg_id p \<mapsto> rebuilt_content (max_name_length ?s)
                                                (team_members ?s) db (content p))\<rparr>,
                           editable_weekly_post :=
                             Some (p\<lparr>content := rebuilt_content (max_name_length ?s)
                                                  (team_members ?s) db (content p)\<rparr>)\<rparr>)"
    by (intro rebuild_post_live) auto
  moreover from h have "aligned ?ms (rebuilt_content (max_len ?ms) ?ms db (content p))"
    by (intro aligned_rebuilt) auto
  ultimately
  show "\<exists>self' q. add_member_to_post self member db clk = Returned self'
             \<and> team_members self' = team_members self @ [member]
             \<and> editable_weekly_post self' = Some q
             \<and> aligned (team_members self') (content q)
             \<and> max_name_length self' = max_len (team_members self')"
    by (simp add: add_member_to_post_def Let_def)
next
  assume h: "(\<forall>m \<in> set (team_members self). newline \<notin> set (name m))
       \<and> filter (\<lambda>m. discord_id m \<noteq> discord_id member) (team_members self) \<noteq> []
       \<and> permitted (channel self)
       \<and> editable_weekly_post self = Some p \<and> messages (channel self) (msg_id p) \<noteq> None"
  let ?ms = "filter (\<lambda>m. discord_id m \<noteq> discord_id member) (team_members self)"
  let ?s = "self\<lparr>team_members := ?ms, max_name_length := max_len ?ms\<rparr>"
  from h have "rebuild_post ?s db clk =
           Returned (?s\<lparr>channel := (channel ?s)
                              \<lparr>messages := (messages (channel ?s))
                                 (msg_id p \<mapsto> rebuilt_content (max_name_length ?s)
                                                (team_members ?s) db (content p))\<rparr>,
                           editable_weekly_post :=
                             Some (p\<lparr>content := rebuilt_content (max_name_length ?s)
                                                  (team_members ?s) db (content p)\<rparr>)\<rparr>)"
    by (intro rebuild_post_live) auto
  moreover from h have "aligned ?ms (rebuilt_content (max_len ?ms) ?ms db (content p))"
    by (intro aligned_rebuilt) auto
  ultimately
  show "\<exists>self' q. remove_member_from_post self member db clk = Returned self'
             \<and> team_members self'
                 = filter (\<lambda>m. discord_id m \<noteq> discord_id member) (team_members self)
             \<and> editable_weekly_post self' = Some q
             \<and> aligned (team_members self') (content q)
             \<and> max_name_length self' = max_len (team_members self')"
    using h by (simp add: remove_member_from_post_def Let_def)
qed

theorem renders_are_aligned_witness:
  "init ex_channel [ex_alice, ex_bob] None
     = Returned (ex_fresh\<lparr>weekly_post_data_json := Some (Object None No_timestamp)\<rparr>)
   \<and> max_name_length (ex_fresh\<lparr>weekly_post_data_json := Some (Object None No_timestamp)\<rparr>)
       = max_len [ex_alice, ex_bob]
   \<and> team_members ex_marked = [ex_alice, ex_bob]
   \<and> newline \<notin> set (name ex_alice) \<and> newline \<notin> set (name ex_bob)
   \<and> newline \<notin> set (name ex_charlotte)
   \<and> max_name_length ex_marked = max_len (team_members ex_marked)
   \<and> team_members ex_marked \<noteq> [] \<and> permitted (channel ex_marked)
   \<and> valid_date (utcnow ex_clock)
   \<and> \<not> (truthy_id (editable_weekly_post_id ex_marked)
          \<and> map_option isocalendar_week (weekly_post_timestamp ex_marked)
              = Some (isocalendar_week (now ex_clock)))
   \<and> editable_weekly_post ex_marked = Some \<lparr>msg_id = 3, content = ex_marked_post\<rparr>
   \<and> messages (channel ex_marked) 3 \<noteq> None
   \<and> filter (\<lambda>m. discord_id m \<noteq> discord_id ex_alice) (team_members ex_marked) \<noteq> []
   \<and> (\<exists>self' q. initialize_post ex_marked ex_marked_db ex_clock = Returned self'
          \<and> editable_weekly_post self' = Some q \<and> aligned (team_members self') (content q))
   \<and> (\<exists>self' q. rebuild_post ex_marked ex_marked_db ex_clock = Returned self'
          \<and> editable_weekly_post self' = Some q \<and> aligned (team_members self') (content q))
   \<and> (\<exists>self' q. add_member_to_post ex_marked ex_charlotte ex_marked_db ex_clock = Returned self'
          \<and> team_members self' = [ex_alice, ex_bob, ex_charlotte]
          \<and> max_name_length self' = 9
          \<and> editable_weekly_post self' = Some q \<and> aligned (team_members self') (content q))
   \<and> (\<exists>self' q. remove_member_from_post ex_marked ex_alice ex_marked_db ex_clock = Returned self'
          \<and> team_members self' = [ex_bob]
          \<and> max_name_length self' = 3
          \<and> editable_weekly_post self' = Some q \<and> aligned (team_members self') (content q))"
proof -
  let ?p = "\<lparr>msg_id = 3, content = ex_marked_post\<rparr>"
  let ?s0 = "ex_fresh\<lparr>weekly_post_data_json := Some (Object None No_timestamp)\<rparr>"
  have i: "init ex_channel [ex_alice, ex_bob] None = Returned ?s0"
    by (simp add: init_def load_weekly_post_data_def ex_fresh_def max_len_def ex_alice_def
          ex_bob_def ascii_def)
  have names: "\<forall>m \<in> set (team_members ex_marked). newline \<notin> set (name m)"
    by (simp add: ex_marked_def ex_alice_def ex_bob_def ascii_def)
  have c: "newline \<notin> set (name ex_charlotte)"
    by (simp add: ex_charlotte_def ascii_def)
  have roster: "team_members ex_marked = [ex_alice, ex_bob]"
    by (simp add: ex_marked_def)
  from names roster have each: "newline \<notin> set (name ex_alice)" "newline \<notin> set (name ex_bob)"
    by simp_all
  have w: "max_name_length ex_marked = max_len (team_members ex_marked)"
    by (simp add: ex_marked_def max_len_def ex_alice_def ex_bob_def ascii_def)
  have ne: "team_members ex_marked \<noteq> []" and perm: "permitted (channel ex_marked)"
    and post: "editable_weekly_post ex_marked = Some ?p"
    and msg: "messages (channel ex_marked) (msg_id ?p) \<noteq> None"
    by (simp_all add: ex_marked_def)
  have v: "valid_date (utcnow ex_clock)"
    by (simp add: ex_clock_def ex_date_def valid_date_def days_in_month_def)
  have week: "\<not> (truthy_id (editable_weekly_post_id ex_marked)
          \<and> map_option isocalendar_week (weekly_post_timestamp ex_marked)
              = Some (isocalendar_week (now ex_clock)))"
    by (simp add: ex_marked_def truthy_id_def)
  have f: "filter (\<lambda>m. discord_id m \<noteq> discord_id ex_alice) (team_members ex_marked) = [ex_bob]"
    by (simp add: ex_marked_def ex_alice_def ex_bob_def)
  have r: "team_members ex_marked @ [ex_charlotte] = [ex_alice, ex_bob, ex_charlotte]"
    by (simp add: ex_marked_def)
  have w9: "max_len [ex_alice, ex_bob, ex_charlotte] = 9"
    by (simp add: max_len_def ex_alice_def ex_bob_def ex_charlotte_def ascii_def)
  have w3: "max_len [ex_bob] = 3"
    by (simp add: max_len_def ex_bob_def ascii_def)
  note add = renders_are_aligned
    [where self = ex_marked and member = ex_charlotte and db = ex_marked_db and clk = ex_clock
       and p = ?p and ch = ex_channel and ms = "[ex_alice, ex_bob]" and stored = None
       and ?self0.0 = ?s0]
  note remove = renders_are_aligned
    [where self = ex_marked and member = ex_alice and db = ex_marked_db and clk = ex_clock
       and p = ?p and ch = ex_channel and ms = "[ex_alice, ex_bob]" and stored = None
       and ?self0.0 = ?s0]
  from add i have 0: "max_name_length ?s0 = max_len [ex_alice, ex_bob]"
    by (simp add: ex_fresh_def)
  from add names w ne perm v week
  have 1: "\<exists>self' q. initialize_post ex_marked ex_marked_db ex_clock = Returned self'
          \<and> editable_weekly_post self' = Some q \<and> aligned (team_members self') (content q)"
    by blast
  from add names w ne perm post msg
  have 2: "\<exists>self' q. rebuild_post ex_marked ex_marked_db ex_clock = Returned self'
          \<and> editable_weekly_post self' = Some q \<and> aligned (team_members self') (content q)"
    by blast
  from add names c perm post msg
  have "\<exists>self' q. add_member_to_post ex_marked ex_charlotte ex_marked_db ex_clock = Returned self'
             \<and> team_members self' = team_members ex_marked @ [ex_charlotte]
             \<and> editable_weekly_post self' = Some q
             \<and> aligned (team_members self') (content q)
             \<and> max_name_length self' = max_len (team_members self')"
    by blast
  then have 3: "\<exists>self' q. add_member_to_post ex_marked ex_charlotte ex_marked_db ex_clock = Returned self'
          \<and> team_members self' = [ex_alice, ex_bob, ex_charlotte]
          \<and> max_name_length self' = 9
          \<and> editable_weekly_post self' = Some q \<and> aligned (team_members self') (content q)"
    unfolding r using w9 by metis
  from remove names f perm post msg
  have "\<exists>self' q. remove_member_from_post ex_marked ex_alice ex_marked_db ex_clock = Returned self'
             \<and> team_members self'
                 = filter (\<lambda>m. discord_id m \<noteq> discord_id ex_alice) (team_members ex_marked)
             \<and> editable_weekly_post self' = Some q
             \<and> aligned (team_members self') (content q)
             \<and> max_name_length self' = max_len (team_members self')"
    by simp
  then have 4: "\<exists>self' q. remove_member_from_post ex_marked ex_alice ex_marked_db ex_clock = Returned self'
          \<and> team_members self' = [ex_bob]
          \<and> max_name_length self' = 3
          \<and> editable_weekly_post self' = Some q \<and> aligned (team_members self') (content q)"
    unfolding f using w3 by metis
  from msg have m3: "messages (channel ex_marked) 3 \<noteq> None" by simp
  from f have fne: "filter (\<lambda>m. discord_id m \<noteq> discord_id ex_alice) (team_members ex_marked) \<noteq> []"
    by simp
  from i 0 roster each c w ne perm v week post m3 fne 1 2 3 4 show ?thesis by blast
qed

end
